theory Spec2Isabelle
  imports Complex_Main "HOL-Library.Char_ord" "HOL-Library.List_Lexorder" "HOL-Library.Word"
begin

section \<open>Commands, responses and the connection\<close>

text \<open>
  The scripts talk to the vehicle through one object, \<^verbatim>\<open>connection\<close>, and one method,
  \<^verbatim>\<open>connection.query(cmd)\<close>. A command is either an attribute of the library's
  \<^verbatim>\<open>obd.commands\<close> table, named by its attribute name, or an ad-hoc
  \<^verbatim>\<open>obd.OBDCommand(name, desc, pid, bytes, decoder)\<close> built by the script.
\<close>

datatype decoder = decoders_percent | decoders_raw_string | decoders_pid

datatype command =
    Lib string
  | OBDCommand string string string nat decoder

subsection \<open>Machine numbers\<close>

text \<open>
  A Python float is a binary64 number. \<open>Double m e\<close> stands for \<open>m * 2 ^ e\<close>. Sums and
  products are computed exactly and then rounded to 53 significant bits, ties to the even
  neighbour. The exponent is not bounded: overflow to infinity and the subnormal range
  are not modelled, and no reading comes near either.
\<close>

datatype double = Double int int

function bit_length :: "int \<Rightarrow> int" where
  "bit_length n = (if n \<le> 0 then 0 else 1 + bit_length (n div 2))"
  by pat_completeness auto
termination
  by (relation "measure nat") auto

declare bit_length.simps [simp del]

definition round53 :: "int \<Rightarrow> int \<Rightarrow> double" where
  "round53 m e =
     (let k = bit_length \<bar>m\<bar> - 53 in
      if k \<le> 0 then Double m e
      else
        (let d = 2 ^ nat k; q = \<bar>m\<bar> div d; r = \<bar>m\<bar> mod d;
             q' = (if 2 * r > d \<or> (2 * r = d \<and> odd q) then q + 1 else q)
         in Double (sgn m * q') (e + k)))"

fun fadd :: "double \<Rightarrow> double \<Rightarrow> double" where
  "fadd (Double m1 e1) (Double m2 e2) =
     (let e = min e1 e2 in round53 (m1 * 2 ^ nat (e1 - e) + m2 * 2 ^ nat (e2 - e)) e)"

fun fmul :: "double \<Rightarrow> double \<Rightarrow> double" where
  "fmul (Double m1 e1) (Double m2 e2) = round53 (m1 * m2) (e1 + e2)"

fun fabs :: "double \<Rightarrow> double" where
  "fabs (Double m e) = Double \<bar>m\<bar> e"

fun flt :: "double \<Rightarrow> double \<Rightarrow> bool" where
  "flt (Double m1 e1) (Double m2 e2) =
     (let e = min e1 e2 in m1 * 2 ^ nat (e1 - e) < m2 * 2 ^ nat (e2 - e))"

fun valof :: "double \<Rightarrow> real" where
  "valof (Double m e) =
     (if 0 \<le> e then real_of_int m * 2 ^ nat e else real_of_int m / 2 ^ nat (- e))"

text \<open>
  The float literals of the scripts, each the binary64 number nearest to the decimal:
  \<^verbatim>\<open>0.1\<close>, \<^verbatim>\<open>0.9\<close>, \<^verbatim>\<open>0.6\<close>, and the factor \<^verbatim>\<open>0.01\<close> of a percent. The integer literals
  10, 20 and 25 are compared at their exact values.
\<close>

definition lit_0_1 :: double where
  "lit_0_1 = Double 3602879701896397 (- 55)"

definition lit_0_9 :: double where
  "lit_0_9 = Double 8106479329266893 (- 53)"

definition lit_0_6 :: double where
  "lit_0_6 = Double 5404319552844595 (- 53)"

definition lit_0_01 :: double where
  "lit_0_01 = Double 5764607523034235 (- 59)"

subsection \<open>Values\<close>

text \<open>
  \<^verbatim>\<open>response.value\<close> is \<^verbatim>\<open>None\<close> or what the command's decoder made: a quantity of the
  units library (a float magnitude with a unit: fuel trims in percent, sensor and
  battery voltages in volt, and under \<open>Unit\<close> the other units of the commands read here,
  all of which have a dimension: revolutions per minute, kilometres per hour, degrees,
  kilopascal, grams per second), text (VIN, adapter version, raw strings), the bit array
  of supported PIDs, or the list of trouble-code pairs.
\<close>

datatype unit = Percent | Volt | Unit string

datatype val =
    Quantity double unit
  | Str string
  | BitArray "bool list"
  | Dtcs "(string \<times> string) list"

text \<open>
  The exceptions raised while a value is handled: an operand of the wrong type
  (\<^verbatim>\<open>TypeError\<close>), a quantity with a dimension compared with a bare number, quantities of
  different units added, and an element that does not unpack into a pair. An error line
  shows the message of its exception.
\<close>

datatype exn =
    TypeError val
  | CompareError val
  | DimensionalityError val val
  | UnpackError val

text \<open>
  What \<^verbatim>\<open>{e}\<close> shows in a function-wide error line: the message of the exception a query
  raised, or an exception raised while the value was handled.
\<close>

datatype cause =
    Message string
  | Exception exn

text \<open>
  A query either returns a response or raises an exception (a subclass of
  \<^verbatim>\<open>Exception\<close>, carried as its message).
\<close>

datatype outcome =
    Response "val option"
  | Raised string

text \<open>
  The connection is stateful: what the vehicle answers may depend on everything sent
  before. Its state is the sequence of commands transmitted so far; the vehicle is a
  function of that history and of the command now sent. \<open>query\<close> answers and appends the
  command to the history, so the history is also the record of transmissions.
\<close>

type_synonym connection = "command list \<Rightarrow> command \<Rightarrow> outcome"

definition query :: "connection \<Rightarrow> command list \<Rightarrow> command \<Rightarrow> outcome \<times> command list" where
  "query conn sent cmd = (conn sent cmd, sent @ [cmd])"

text \<open>The outcomes of sending a list of commands one after the other.\<close>

fun outcomes :: "connection \<Rightarrow> command list \<Rightarrow> command list \<Rightarrow> outcome list" where
  "outcomes conn sent [] = []"
| "outcomes conn sent (c # cs) = conn sent c # outcomes conn (sent @ [c]) cs"

text \<open>
  Python truthiness of \<^verbatim>\<open>response.value\<close>, as \<^verbatim>\<open>if response.value:\<close> tests it: a quantity
  by its magnitude, text, a bit array and a list by their length. A bit array of 32 zero
  bits is truthy.
\<close>

fun truthy :: "val option \<Rightarrow> bool" where
  "truthy None = False"
| "truthy (Some (Quantity (Double m e) u)) = (m \<noteq> 0)"
| "truthy (Some (Str s)) = (s \<noteq> [])"
| "truthy (Some (BitArray bs)) = (bs \<noteq> [])"
| "truthy (Some (Dtcs ds)) = (ds \<noteq> [])"

text \<open>
  \<^verbatim>\<open>abs(v)\<close>: the quantity with the magnitude's absolute value; a \<^verbatim>\<open>TypeError\<close> on
  anything else.
\<close>

fun py_abs :: "val \<Rightarrow> exn + val" where
  "py_abs (Quantity d u) = Inr (Quantity (fabs d) u)"
| "py_abs v = Inl (TypeError v)"

text \<open>
  \<^verbatim>\<open>a + b\<close>, which the scripts apply to two results of \<^verbatim>\<open>abs\<close> only: quantities of one
  unit add their magnitudes, quantities of different units are refused.
\<close>

fun py_add :: "val \<Rightarrow> val \<Rightarrow> exn + val" where
  "py_add (Quantity a u) (Quantity b u') =
     (if u = u' then Inr (Quantity (fadd a b) u)
      else Inl (DimensionalityError (Quantity a u) (Quantity b u')))"
| "py_add (Quantity a u) w = Inl (TypeError w)"
| "py_add v w = Inl (TypeError v)"

text \<open>
  \<^verbatim>\<open>v < c\<close> and \<^verbatim>\<open>v > c\<close> for a bare number \<open>c\<close>. The units library compares a quantity
  with a bare number only when the quantity has no dimension, and then at its
  dimensionless value: a percent quantity is multiplied by 0.01 first, so 25 percent is
  compared as 0.25. A quantity in volt, or in any other unit, is refused. Text, bit
  arrays and lists do not compare with a number.
\<close>

fun py_lt :: "val \<Rightarrow> double \<Rightarrow> exn + bool" where
  "py_lt (Quantity d Percent) c = Inr (flt (fmul d lit_0_01) c)"
| "py_lt (Quantity d u) c = Inl (CompareError (Quantity d u))"
| "py_lt v c = Inl (TypeError v)"

fun py_gt :: "val \<Rightarrow> double \<Rightarrow> exn + bool" where
  "py_gt (Quantity d Percent) c = Inr (flt c (fmul d lit_0_01))"
| "py_gt (Quantity d u) c = Inl (CompareError (Quantity d u))"
| "py_gt v c = Inl (TypeError v)"

section \<open>Strings\<close>

text \<open>
  \<^verbatim>\<open>s.startswith(p)\<close> and \<^verbatim>\<open>t in s\<close> on strings, for any alphabet: a Python string is a
  list of code points.
\<close>

fun startswith :: "'c list \<Rightarrow> 'c list \<Rightarrow> bool" where
  "startswith s [] = True"
| "startswith [] (p # ps) = False"
| "startswith (c # cs) (p # ps) = (c = p \<and> startswith cs ps)"

fun contains :: "'c list \<Rightarrow> 'c list \<Rightarrow> bool" where
  "contains [] t = (t = [])"
| "contains (c # cs) t = (startswith (c # cs) t \<or> contains cs t)"

text \<open>\<^verbatim>\<open>s.upper()\<close> and \<^verbatim>\<open>s.lower()\<close> on ASCII text: only the 26 letters change.\<close>

definition ascii_lowercase :: string where
  "ascii_lowercase = ''abcdefghijklmnopqrstuvwxyz''"

definition ascii_uppercase :: string where
  "ascii_uppercase = ''ABCDEFGHIJKLMNOPQRSTUVWXYZ''"

definition upper_char :: "char \<Rightarrow> char" where
  "upper_char c =
     (case map_of (zip ascii_lowercase ascii_uppercase) c of Some u \<Rightarrow> u | None \<Rightarrow> c)"

definition lower_char :: "char \<Rightarrow> char" where
  "lower_char c =
     (case map_of (zip ascii_uppercase ascii_lowercase) c of Some l \<Rightarrow> l | None \<Rightarrow> c)"

definition upper :: "string \<Rightarrow> string" where
  "upper s = map upper_char s"

definition lower :: "string \<Rightarrow> string" where
  "lower s = map lower_char s"

section \<open>Console output\<close>

text \<open>
  The scripts report by printing. Each print that carries data is one constructor below;
  banners, rulers, clock readings and fixed advisory text are left out. The verdict
  types carry the names the specification gives to the printed phrases. \<open>Error\<close> is the
  line "description: Error - e" for the exception a query raised, \<open>ErrorIn\<close> the same line
  for an exception raised while the value was handled, \<open>BareError\<close> the line
  "description: Error" with no message.
\<close>

datatype FuelTrimStatus =
    Normal
  | Elevated
  | High

datatype O2Behavior =
    LeanSuspect
  | RichSuspect
  | NormalSwitching
  | CatalystLikelyOk
  | CatalystLikelyFailing

datatype line =
    Reading string val
  | NotAvailable string
  | CommandNotAvailable string
  | Error string string
  | ErrorIn string exn
  | BareError string
  | NoWorkingSensors
  | TrimValues "val option" "val option"
  | FuelMixture FuelTrimStatus
  | TrimAnalysis FuelTrimStatus
  | O2Analysis O2Behavior
  | ErrorReadingFuelTrims cause
  | CatalystTemperature string val
  | ErrorReadingCommand string string
  | CatalystTempNotAvailable
  | FoundStored nat
  | FoundPending nat
  | DtcCode string string
  | NoStoredDtcs
  | NoPendingDtcs
  | PendingCommandMissing
  | CouldNotReadPending cause
  | ErrorReadingDtcs cause
  | DtcsCleared
  | ErrorClearingDtcs string
  | ClearingCancelled
  | VinCommandExists
  | VinRetrieved val
  | VinNoData
  | VinCommandMissing
  | VinError string
  | RawResponse val
  | RawNoResponse string
  | RawError string string
  | CurrentProtocol val
  | CouldNotDetermineProtocol
  | Mode01Pids val
  | Mode09Pids val
  | Pid02Supported
  | Pid02NotSupported
  | Mode09NoResponse
  | ErrorTestingPids cause

section \<open>po420\_honda\_spec.py: fuel-trim analysis\<close>

text \<open>
  Lines 184-189: the verdict on \<^verbatim>\<open>total_trim\<close>, compared with the bare numbers 10 and 20.
  "Excellent" is \<open>Normal\<close>, "Acceptable" is \<open>Elevated\<close>, "Poor" is \<open>High\<close>.
\<close>

definition fuel_mixture :: "val \<Rightarrow> exn + FuelTrimStatus" where
  "fuel_mixture total_trim =
     (case py_lt total_trim (Double 10 0) of
        Inl e \<Rightarrow> Inl e
      | Inr True \<Rightarrow> Inr Normal
      | Inr False \<Rightarrow>
          (case py_lt total_trim (Double 20 0) of
             Inl e \<Rightarrow> Inl e
           | Inr True \<Rightarrow> Inr Elevated
           | Inr False \<Rightarrow> Inr High))"

text \<open>
  Lines 181-189: the guarded block. \<open>Inl\<close> is an exception leaving the block; when either
  value is \<^verbatim>\<open>None\<close> the block prints nothing.
\<close>

definition fuel_mixture_block :: "val option \<Rightarrow> val option \<Rightarrow> exn + line list" where
  "fuel_mixture_block stft ltft =
     (case (stft, ltft) of
        (Some s, Some l) \<Rightarrow>
          (case py_abs s of
             Inl e \<Rightarrow> Inl e
           | Inr a \<Rightarrow>
               (case py_abs l of
                  Inl e \<Rightarrow> Inl e
                | Inr b \<Rightarrow>
                    (case py_add a b of
                       Inl e \<Rightarrow> Inl e
                     | Inr total_trim \<Rightarrow>
                         (case fuel_mixture total_trim of
                            Inl e \<Rightarrow> Inl e
                          | Inr verdict \<Rightarrow> Inr [FuelMixture verdict]))))
      | _ \<Rightarrow> Inr [])"

text \<open>
  Lines 174-192: both queries and the block sit in one \<^verbatim>\<open>try\<close>; an exception anywhere
  ends it with the "Error reading fuel trims" line, keeping what was printed before.
\<close>

definition analyze_p0420_without_o2 :: "connection \<Rightarrow> command list \<Rightarrow> line list \<times> command list" where
  "analyze_p0420_without_o2 conn sent =
     (case query conn sent (Lib ''SHORT_FUEL_TRIM_1'') of
        (Raised e, sent1) \<Rightarrow> ([ErrorReadingFuelTrims (Message e)], sent1)
      | (Response stft, sent1) \<Rightarrow>
          (case query conn sent1 (Lib ''LONG_FUEL_TRIM_1'') of
             (Raised e, sent2) \<Rightarrow> ([ErrorReadingFuelTrims (Message e)], sent2)
           | (Response ltft, sent2) \<Rightarrow>
               (case fuel_mixture_block stft ltft of
                  Inl x \<Rightarrow> ([TrimValues stft ltft, ErrorReadingFuelTrims (Exception x)], sent2)
                | Inr ls \<Rightarrow> (TrimValues stft ltft # ls, sent2))))"

section \<open>po420\_honda\_spec.py: probing the O2 sensor PIDs\<close>

text \<open>
  A working sensor is the triple the script appends to \<^verbatim>\<open>working_sensors\<close>. \<open>lib\<close> is
  \<^verbatim>\<open>hasattr(obd.commands, name)\<close>: which attribute names the installed library has.
\<close>

type_synonym sensor = "string \<times> string \<times> val"

definition standard_pids :: "(string \<times> string) list" where
  "standard_pids =
     [(''O2_B1S1'', ''Bank 1 Sensor 1 (Standard)''),
      (''O2_B1S2'', ''Bank 1 Sensor 2 (Standard)''),
      (''O2_B2S1'', ''Bank 2 Sensor 1 (Standard)''),
      (''O2_B2S2'', ''Bank 2 Sensor 2 (Standard)'')]"

definition honda_specific_pids :: "(string \<times> string) list" where
  "honda_specific_pids =
     [(''0115'', ''O2 Bank 1 Sensor 2 (Honda Format)''),
      (''0116'', ''O2 Bank 1 Sensor 3 (Honda Format)''),
      (''0117'', ''O2 Bank 1 Sensor 4 (Honda Format)''),
      (''0118'', ''O2 Bank 2 Sensor 1 (Honda Format)''),
      (''0119'', ''O2 Bank 2 Sensor 2 (Honda Format)'')]"

text \<open>Lines 39-53: the loop over the standard commands, for any candidate list.\<close>

fun test_standard_commands ::
  "(string \<Rightarrow> bool) \<Rightarrow> connection \<Rightarrow> command list \<Rightarrow> (string \<times> string) list
     \<Rightarrow> line list \<times> sensor list \<times> command list" where
  "test_standard_commands lib conn sent [] = ([], [], sent)"
| "test_standard_commands lib conn sent ((cmd_name, description) # rest) =
     (if lib cmd_name then
        (case query conn sent (Lib cmd_name) of
           (Raised e, sent1) \<Rightarrow>
             (case test_standard_commands lib conn sent1 rest of
                (ls, ws, sent2) \<Rightarrow> (Error description e # ls, ws, sent2))
         | (Response None, sent1) \<Rightarrow>
             (case test_standard_commands lib conn sent1 rest of
                (ls, ws, sent2) \<Rightarrow> (NotAvailable description # ls, ws, sent2))
         | (Response (Some v), sent1) \<Rightarrow>
             (case test_standard_commands lib conn sent1 rest of
                (ls, ws, sent2) \<Rightarrow>
                  (Reading description v # ls, (cmd_name, description, v) # ws, sent2)))
      else
        (case test_standard_commands lib conn sent rest of
           (ls, ws, sent2) \<Rightarrow> (CommandNotAvailable description # ls, ws, sent2)))"

text \<open>Lines 62-66: the ad-hoc command built for a raw Honda PID.\<close>

definition honda_cmd :: "string \<times> string \<Rightarrow> command" where
  "honda_cmd c = OBDCommand (''HONDA_O2_'' @ fst c) (snd c) (fst c) 2 decoders_percent"

text \<open>Lines 59-76: the loop over the raw PIDs, for any candidate list.\<close>

fun test_honda_pids ::
  "connection \<Rightarrow> command list \<Rightarrow> (string \<times> string) list
     \<Rightarrow> line list \<times> sensor list \<times> command list" where
  "test_honda_pids conn sent [] = ([], [], sent)"
| "test_honda_pids conn sent ((pid, description) # rest) =
     (case query conn sent (honda_cmd (pid, description)) of
        (Raised e, sent1) \<Rightarrow>
          (case test_honda_pids conn sent1 rest of
             (ls, ws, sent2) \<Rightarrow> (Error description e # ls, ws, sent2))
      | (Response None, sent1) \<Rightarrow>
          (case test_honda_pids conn sent1 rest of
             (ls, ws, sent2) \<Rightarrow> (NotAvailable description # ls, ws, sent2))
      | (Response (Some v), sent1) \<Rightarrow>
          (case test_honda_pids conn sent1 rest of
             (ls, ws, sent2) \<Rightarrow>
               (Reading description v # ls, (pid, description, v) # ws, sent2)))"

text \<open>The whole function: both loops on the script's own lists, one shared result list.\<close>

definition test_all_o2_sensor_pids ::
  "(string \<Rightarrow> bool) \<Rightarrow> connection \<Rightarrow> command list \<Rightarrow> line list \<times> sensor list \<times> command list" where
  "test_all_o2_sensor_pids lib conn sent =
     (case test_standard_commands lib conn sent standard_pids of
        (ls1, ws1, sent1) \<Rightarrow>
          (case test_honda_pids conn sent1 honda_specific_pids of
             (ls2, ws2, sent2) \<Rightarrow> (ls1 @ ls2, ws1 @ ws2, sent2)))"

text \<open>
  The candidates that answered with a value, each with its value, in candidate order:
  what the loops collect in \<^verbatim>\<open>working_sensors\<close>, given the outcomes of their queries.
\<close>

fun answered :: "(string \<times> string) list \<Rightarrow> outcome list \<Rightarrow> sensor list" where
  "answered ((name, description) # cs) (Response (Some v) # rs) =
     (name, description, v) # answered cs rs"
| "answered (c # cs) (r # rs) = answered cs rs"
| "answered cs rs = []"

section \<open>po420\_honda\_spec.py: wideband sensors and live monitoring\<close>

definition afr_pids :: "(string \<times> string) list" where
  "afr_pids =
     [(''0124'', ''AFR Bank 1 Sensor 1''),
      (''0125'', ''AFR Bank 1 Sensor 2''),
      (''0126'', ''AFR Bank 2 Sensor 1''),
      (''0127'', ''AFR Bank 2 Sensor 2'')]"

definition afr_cmd :: "string \<times> string \<Rightarrow> command" where
  "afr_cmd c = OBDCommand (''AFR_'' @ fst c) (snd c) (fst c) 2 decoders_percent"

text \<open>
  Lines 102-116: one pass of the loop body, given what the query did, and the loop.
\<close>

definition wideband_report :: "string \<Rightarrow> outcome \<Rightarrow> line" where
  "wideband_report description r =
     (case r of
        Raised e \<Rightarrow> Error description e
      | Response None \<Rightarrow> NotAvailable description
      | Response (Some v) \<Rightarrow> Reading description v)"

fun test_wideband_loop ::
  "connection \<Rightarrow> command list \<Rightarrow> (string \<times> string) list \<Rightarrow> line list \<times> command list" where
  "test_wideband_loop conn sent [] = ([], sent)"
| "test_wideband_loop conn sent ((pid, description) # rest) =
     (case query conn sent (afr_cmd (pid, description)) of
        (r, sent1) \<Rightarrow>
          (case test_wideband_loop conn sent1 rest of
             (ls, sent2) \<Rightarrow> (wideband_report description r # ls, sent2)))"

definition test_wideband_o2_sensors :: "connection \<Rightarrow> command list \<Rightarrow> line list \<times> command list" where
  "test_wideband_o2_sensors conn sent = test_wideband_loop conn sent afr_pids"

text \<open>
  Lines 138-154: the command for a working sensor, and one pass of the inner loop body.
  A value is printed under the first 30 characters of the description, \<^verbatim>\<open>None\<close> prints
  nothing, and an exception prints "Error" without its message.
\<close>

definition monitor_cmd :: "(string \<Rightarrow> bool) \<Rightarrow> sensor \<Rightarrow> command" where
  "monitor_cmd lib s =
     (case s of
        (cmd_name, description, v) \<Rightarrow>
          (if lib cmd_name then Lib cmd_name
           else OBDCommand (''CUSTOM_'' @ cmd_name) description cmd_name 2 decoders_percent))"

definition monitor_report :: "string \<Rightarrow> outcome \<Rightarrow> line list" where
  "monitor_report description r =
     (case r of
        Raised e \<Rightarrow> [BareError (take 30 description)]
      | Response None \<Rightarrow> []
      | Response (Some v) \<Rightarrow> [Reading (take 30 description) v])"

fun monitor_round ::
  "(string \<Rightarrow> bool) \<Rightarrow> connection \<Rightarrow> command list \<Rightarrow> sensor list \<Rightarrow> line list \<times> command list" where
  "monitor_round lib conn sent [] = ([], sent)"
| "monitor_round lib conn sent (s # rest) =
     (case query conn sent (monitor_cmd lib s) of
        (r, sent1) \<Rightarrow>
          (case monitor_round lib conn sent1 rest of
             (ls, sent2) \<Rightarrow> (monitor_report (fst (snd s)) r @ ls, sent2)))"

text \<open>
  Lines 120-156: the rounds of the \<^verbatim>\<open>while\<close> loop. How many rounds run is decided by the
  clock (30 seconds, two seconds of sleep a round); \<open>rounds\<close> is that number.
\<close>

fun monitor_rounds ::
  "(string \<Rightarrow> bool) \<Rightarrow> connection \<Rightarrow> command list \<Rightarrow> sensor list \<Rightarrow> nat
     \<Rightarrow> line list \<times> command list" where
  "monitor_rounds lib conn sent working_sensors 0 = ([], sent)"
| "monitor_rounds lib conn sent working_sensors (Suc n) =
     (case monitor_round lib conn sent working_sensors of
        (ls1, sent1) \<Rightarrow>
          (case monitor_rounds lib conn sent1 working_sensors n of
             (ls2, sent2) \<Rightarrow> (ls1 @ ls2, sent2)))"

definition live_o2_monitoring ::
  "(string \<Rightarrow> bool) \<Rightarrow> connection \<Rightarrow> command list \<Rightarrow> sensor list \<Rightarrow> nat
     \<Rightarrow> line list \<times> command list" where
  "live_o2_monitoring lib conn sent working_sensors rounds =
     (if working_sensors = [] then ([NoWorkingSensors], sent)
      else monitor_rounds lib conn sent working_sensors rounds)"

section \<open>po4220V2.py: O2 sensor and fuel-trim readings\<close>

text \<open>
  Lines 56-67: the verdict on one voltage, compared with the bare numbers 0.1, 0.9 and
  0.6. The sensor's position is read off the description text. \<open>Inl\<close> is an exception
  raised by a comparison.
\<close>

definition is_upstream :: "string \<Rightarrow> bool" where
  "is_upstream description \<longleftrightarrow>
     contains description ''Upstream'' \<or> contains description ''Pre-Cat''"

definition analyze_voltage :: "string \<Rightarrow> val \<Rightarrow> exn + O2Behavior" where
  "analyze_voltage description voltage =
     (if is_upstream description then
        (case py_lt voltage lit_0_1 of
           Inl e \<Rightarrow> Inl e
         | Inr True \<Rightarrow> Inr LeanSuspect
         | Inr False \<Rightarrow>
             (case py_gt voltage lit_0_9 of
                Inl e \<Rightarrow> Inl e
              | Inr True \<Rightarrow> Inr RichSuspect
              | Inr False \<Rightarrow> Inr NormalSwitching))
      else
        (case py_lt voltage lit_0_6 of
           Inl e \<Rightarrow> Inl e
         | Inr True \<Rightarrow> Inr CatalystLikelyOk
         | Inr False \<Rightarrow> Inr CatalystLikelyFailing))"

text \<open>
  Lines 49-72: one pass of the loop body, given what the query did. No value has a
  \<^verbatim>\<open>voltage\<close> attribute, so line 52 takes the value itself. It is printed before it is
  compared, so the reading stays when the comparison raises.
\<close>

definition o2_report :: "string \<Rightarrow> outcome \<Rightarrow> line list" where
  "o2_report description r =
     (case r of
        Raised e \<Rightarrow> [Error description e]
      | Response None \<Rightarrow> [NotAvailable description]
      | Response (Some v) \<Rightarrow>
          Reading description v #
            (case analyze_voltage description v of
               Inl x \<Rightarrow> [ErrorIn description x]
             | Inr verdict \<Rightarrow> [O2Analysis verdict]))"

fun read_o2_loop ::
  "connection \<Rightarrow> command list \<Rightarrow> (command \<times> string \<times> string) list \<Rightarrow> line list \<times> command list" where
  "read_o2_loop conn sent [] = ([], sent)"
| "read_o2_loop conn sent ((cmd, description, location) # rest) =
     (case query conn sent cmd of
        (r, sent1) \<Rightarrow>
          (case read_o2_loop conn sent1 rest of
             (ls, sent2) \<Rightarrow> (o2_report description r @ ls, sent2)))"

definition o2_commands :: "(string \<Rightarrow> bool) \<Rightarrow> (command \<times> string \<times> string) list" where
  "o2_commands lib =
     [(Lib ''O2_B1S1'', ''Bank 1 Sensor 1 (Upstream/Pre-Cat)'', ''Pre-catalytic converter''),
      (Lib ''O2_B1S2'', ''Bank 1 Sensor 2 (Downstream/Post-Cat)'', ''Post-catalytic converter'')]
     @ (if lib ''O2_B2S1'' then
          [(Lib ''O2_B2S1'', ''Bank 2 Sensor 1 (Upstream)'', ''Pre-catalytic converter''),
           (Lib ''O2_B2S2'', ''Bank 2 Sensor 2 (Downstream)'', ''Post-catalytic converter'')]
        else [])"

definition read_o2_sensors ::
  "(string \<Rightarrow> bool) \<Rightarrow> connection \<Rightarrow> command list \<Rightarrow> line list \<times> command list" where
  "read_o2_sensors lib conn sent = read_o2_loop conn sent (o2_commands lib)"

text \<open>
  Lines 107-113: the verdict on a single trim value, compared with the bare numbers 25
  and 10; lines 101-116: one pass of the loop body. A \<^verbatim>\<open>None\<close> value prints nothing.
\<close>

definition analyze_fuel_trim :: "val \<Rightarrow> exn + FuelTrimStatus" where
  "analyze_fuel_trim trim_percent =
     (case py_abs trim_percent of
        Inl e \<Rightarrow> Inl e
      | Inr a \<Rightarrow>
          (case py_gt a (Double 25 0) of
             Inl e \<Rightarrow> Inl e
           | Inr True \<Rightarrow> Inr High
           | Inr False \<Rightarrow>
               (case py_gt a (Double 10 0) of
                  Inl e \<Rightarrow> Inl e
                | Inr True \<Rightarrow> Inr Elevated
                | Inr False \<Rightarrow> Inr Normal)))"

definition fuel_trim_report :: "string \<Rightarrow> outcome \<Rightarrow> line list" where
  "fuel_trim_report description r =
     (case r of
        Raised e \<Rightarrow> [Error description e]
      | Response None \<Rightarrow> []
      | Response (Some v) \<Rightarrow>
          Reading description v #
            (case analyze_fuel_trim v of
               Inl x \<Rightarrow> [ErrorIn description x]
             | Inr verdict \<Rightarrow> [TrimAnalysis verdict]))"

fun read_fuel_trim_loop ::
  "connection \<Rightarrow> command list \<Rightarrow> (command \<times> string) list \<Rightarrow> line list \<times> command list" where
  "read_fuel_trim_loop conn sent [] = ([], sent)"
| "read_fuel_trim_loop conn sent ((cmd, description) # rest) =
     (case query conn sent cmd of
        (r, sent1) \<Rightarrow>
          (case read_fuel_trim_loop conn sent1 rest of
             (ls, sent2) \<Rightarrow> (fuel_trim_report description r @ ls, sent2)))"




fun read_catalyst_loop ::
  "(string \<Rightarrow> bool) \<Rightarrow> connection \<Rightarrow> command list \<Rightarrow> string list
     \<Rightarrow> line list \<times> bool \<times> command list" where
  "read_catalyst_loop lib conn sent [] = ([], False, sent)"
| "read_catalyst_loop lib conn sent (cmd_name # rest) =
     (if lib cmd_name then
        (case query conn sent (Lib cmd_name) of
           (Raised e, sent1) \<Rightarrow>
             (case read_catalyst_loop lib conn sent1 rest of
                (ls, found_temp, sent2) \<Rightarrow> (ErrorReadingCommand cmd_name e # ls, found_temp, sent2))
         | (Response None, sent1) \<Rightarrow> read_catalyst_loop lib conn sent1 rest
         | (Response (Some v), sent1) \<Rightarrow> ([CatalystTemperature cmd_name v], True, sent1))
      else read_catalyst_loop lib conn sent rest)"


section \<open>elm327\_tsx\_reader.py: live data and clearing trouble codes\<close>

text \<open>Lines 94-101: one pass of the loop body; lines 93-101: the loop.\<close>

definition live_report :: "string \<Rightarrow> outcome \<Rightarrow> line" where
  "live_report description r =
     (case r of
        Raised e \<Rightarrow> Error description e
      | Response None \<Rightarrow> NotAvailable description
      | Response (Some v) \<Rightarrow> Reading description v)"

fun read_live_loop ::
  "connection \<Rightarrow> command list \<Rightarrow> (command \<times> string) list \<Rightarrow> line list \<times> command list" where
  "read_live_loop conn sent [] = ([], sent)"
| "read_live_loop conn sent ((cmd, description) # rest) =
     (case query conn sent cmd of
        (r, sent1) \<Rightarrow>
          (case read_live_loop conn sent1 rest of
             (ls, sent2) \<Rightarrow> (live_report description r # ls, sent2)))"

definition live_commands :: "(command \<times> string) list" where
  "live_commands =
     [(Lib ''RPM'', ''Engine RPM''),
      (Lib ''SPEED'', ''Vehicle Speed''),
      (Lib ''THROTTLE_POS'', ''Throttle Position''),
      (Lib ''ENGINE_LOAD'', ''Engine Load''),
      (Lib ''COOLANT_TEMP'', ''Coolant Temperature''),
      (Lib ''INTAKE_TEMP'', ''Intake Air Temperature''),
      (Lib ''MAF'', ''Mass Air Flow''),
      (Lib ''FUEL_PRESSURE'', ''Fuel Pressure''),
      (Lib ''O2_B1S1'', ''O2 Sensor Bank 1 Sensor 1''),
      (Lib ''SHORT_FUEL_TRIM_1'', ''Short Term Fuel Trim Bank 1''),
      (Lib ''LONG_FUEL_TRIM_1'', ''Long Term Fuel Trim Bank 1'')]"

definition read_live_data :: "connection \<Rightarrow> command list \<Rightarrow> line list \<times> command list" where
  "read_live_data conn sent = read_live_loop conn sent live_commands"

text \<open>
  Lines 109-118: \<open>response\<close> is what the user typed at the prompt. Whatever the query
  returns counts as success; only an exception prints the error line.
\<close>

definition clear_dtcs :: "string \<Rightarrow> connection \<Rightarrow> command list \<Rightarrow> line list \<times> command list" where
  "clear_dtcs response conn sent =
     (if lower response = ''y'' then
        (case query conn sent (Lib ''CLEAR_DTC'') of
           (Raised e, sent1) \<Rightarrow> ([ErrorClearingDtcs e], sent1)
         | (Response v, sent1) \<Rightarrow> ([DtcsCleared], sent1))
      else ([ClearingCancelled], sent))"

section \<open>elm327\_tsx\_reader.py: trouble codes and vehicle information\<close>

text \<open>
  Lines 41-43 and 58-60: the count line and one line per code, for a truthy value. The
  second component is the exception that ends the listing, if any: \<^verbatim>\<open>len\<close> of a quantity,
  or an element (a character, a bit) that does not unpack into a code and a description.
\<close>

fun dtc_listing :: "(nat \<Rightarrow> line) \<Rightarrow> val \<Rightarrow> line list \<times> exn option" where
  "dtc_listing found (Dtcs ds) = (found (length ds) # map (\<lambda>(code, d). DtcCode code d) ds, None)"
| "dtc_listing found (Str s) = ([found (length s)], Some (UnpackError (Str s)))"
| "dtc_listing found (BitArray bs) = ([found (length bs)], Some (TypeError (BitArray bs)))"
| "dtc_listing found (Quantity d u) = ([], Some (TypeError (Quantity d u)))"

text \<open>
  Lines 48-64: the pending codes, under their own \<^verbatim>\<open>try\<close>. The command is the first of
  \<^verbatim>\<open>GET_PENDING_DTC\<close> and \<^verbatim>\<open>PENDING_DTC\<close> that the library has; with neither, nothing is
  sent. A response object is itself truthy.
\<close>

definition pending_report :: "outcome \<Rightarrow> line list" where
  "pending_report r =
     (case r of
        Raised e \<Rightarrow> [CouldNotReadPending (Message e)]
      | Response None \<Rightarrow> [NoPendingDtcs]
      | Response (Some v) \<Rightarrow>
          (if truthy (Some v) then
             (case dtc_listing FoundPending v of
                (ls, None) \<Rightarrow> ls
              | (ls, Some x) \<Rightarrow> ls @ [CouldNotReadPending (Exception x)])
           else [NoPendingDtcs]))"

definition read_pending ::
  "(string \<Rightarrow> bool) \<Rightarrow> connection \<Rightarrow> command list \<Rightarrow> line list \<times> command list" where
  "read_pending lib conn sent =
     (if lib ''GET_PENDING_DTC'' then
        (case query conn sent (Lib ''GET_PENDING_DTC'') of
           (r, sent1) \<Rightarrow> (pending_report r, sent1))
      else if lib ''PENDING_DTC'' then
        (case query conn sent (Lib ''PENDING_DTC'') of
           (r, sent1) \<Rightarrow> (pending_report r, sent1))
      else ([PendingCommandMissing], sent))"

text \<open>
  Lines 36-67: the stored codes, then the pending ones. An exception in the stored part
  skips the pending part.
\<close>

definition read_dtcs ::
  "(string \<Rightarrow> bool) \<Rightarrow> connection \<Rightarrow> command list \<Rightarrow> line list \<times> command list" where
  "read_dtcs lib conn sent =
     (case query conn sent (Lib ''GET_DTC'') of
        (Raised e, sent1) \<Rightarrow> ([ErrorReadingDtcs (Message e)], sent1)
      | (Response None, sent1) \<Rightarrow>
          (case read_pending lib conn sent1 of
             (ls, sent2) \<Rightarrow> (NoStoredDtcs # ls, sent2))
      | (Response (Some v), sent1) \<Rightarrow>
          (if truthy (Some v) then
             (case dtc_listing FoundStored v of
                (ls1, Some x) \<Rightarrow> (ls1 @ [ErrorReadingDtcs (Exception x)], sent1)
              | (ls1, None) \<Rightarrow>
                  (case read_pending lib conn sent1 of
                     (ls, sent2) \<Rightarrow> (ls1 @ ls, sent2)))
           else
             (case read_pending lib conn sent1 of
                (ls, sent2) \<Rightarrow> (NoStoredDtcs # ls, sent2))))"

text \<open>Lines 132-138: one pass of the loop body, and the loop. \<^verbatim>\<open>None\<close> prints nothing.\<close>

definition info_report :: "string \<Rightarrow> outcome \<Rightarrow> line list" where
  "info_report description r =
     (case r of
        Raised e \<Rightarrow> [Error description e]
      | Response None \<Rightarrow> []
      | Response (Some v) \<Rightarrow> [Reading description v])"

fun read_info_loop ::
  "connection \<Rightarrow> command list \<Rightarrow> (command \<times> string) list \<Rightarrow> line list \<times> command list" where
  "read_info_loop conn sent [] = ([], sent)"
| "read_info_loop conn sent ((cmd, description) # rest) =
     (case query conn sent cmd of
        (r, sent1) \<Rightarrow>
          (case read_info_loop conn sent1 rest of
             (ls, sent2) \<Rightarrow> (info_report description r @ ls, sent2)))"

definition vehicle_info_commands :: "(command \<times> string) list" where
  "vehicle_info_commands =
     [(Lib ''VIN'', ''VIN''),
      (Lib ''ELM_VERSION'', ''ELM327 Version''),
      (Lib ''ELM_VOLTAGE'', ''Battery Voltage'')]"

definition read_vehicle_info :: "connection \<Rightarrow> command list \<Rightarrow> line list \<times> command list" where
  "read_vehicle_info conn sent = read_info_loop conn sent vehicle_info_commands"

section \<open>test\_vin.py: the VIN probes\<close>

text \<open>
  Lines 16-37: the standard VIN command. The first component is the function's return
  value: the VIN when the response is truthy, \<^verbatim>\<open>None\<close> on every other path.
\<close>

definition test_vin_command ::
  "(string \<Rightarrow> bool) \<Rightarrow> connection \<Rightarrow> command list \<Rightarrow> val option \<times> line list \<times> command list" where
  "test_vin_command lib conn sent =
     (if lib ''VIN'' then
        (case query conn sent (Lib ''VIN'') of
           (Raised e, sent1) \<Rightarrow> (None, [VinCommandExists, VinError e], sent1)
         | (Response None, sent1) \<Rightarrow> (None, [VinCommandExists, VinNoData], sent1)
         | (Response (Some v), sent1) \<Rightarrow>
             (if truthy (Some v) then (Some v, [VinCommandExists, VinRetrieved v], sent1)
              else (None, [VinCommandExists, VinNoData], sent1)))
      else (None, [VinCommandMissing], sent))"

definition vin_pids :: "(string \<times> string) list" where
  "vin_pids =
     [(''0902'', ''Standard VIN Request (Mode 09, PID 02)''),
      (''0904'', ''Calibration ID''),
      (''090A'', ''ECU Name'')]"

definition vin_test_cmd :: "string \<times> string \<Rightarrow> command" where
  "vin_test_cmd c = OBDCommand ''VIN_TEST'' (snd c) (fst c) 17 decoders_raw_string"

text \<open>Lines 54-68: one pass of the loop body; lines 52-68: the loop.\<close>

definition raw_vin_report :: "string \<Rightarrow> outcome \<Rightarrow> line" where
  "raw_vin_report p r =
     (case r of
        Raised e \<Rightarrow> RawError p e
      | Response None \<Rightarrow> RawNoResponse p
      | Response (Some v) \<Rightarrow> (if truthy (Some v) then RawResponse v else RawNoResponse p))"

fun test_raw_vin_loop ::
  "connection \<Rightarrow> command list \<Rightarrow> (string \<times> string) list \<Rightarrow> line list \<times> command list" where
  "test_raw_vin_loop conn sent [] = ([], sent)"
| "test_raw_vin_loop conn sent ((p, description) # rest) =
     (case query conn sent (vin_test_cmd (p, description)) of
        (r, sent1) \<Rightarrow>
          (case test_raw_vin_loop conn sent1 rest of
             (ls, sent2) \<Rightarrow> (raw_vin_report p r # ls, sent2)))"

definition test_raw_vin_commands :: "connection \<Rightarrow> command list \<Rightarrow> line list \<times> command list" where
  "test_raw_vin_commands conn sent = test_raw_vin_loop conn sent vin_pids"

text \<open>
  Lines 82-99: the protocol probe sits under a bare \<^verbatim>\<open>except\<close> that prints a fixed
  sentence; a falsy value prints nothing. The loop over the two adapter commands has the
  body of \<open>read_live_loop\<close>.
\<close>

definition protocol_cmd :: command where
  "protocol_cmd = OBDCommand ''PROTOCOL'' ''Current Protocol'' ''ATDP'' 1 decoders_raw_string"

definition info_commands :: "(command \<times> string) list" where
  "info_commands =
     [(Lib ''ELM_VERSION'', ''ELM327 Version''),
      (Lib ''ELM_VOLTAGE'', ''Battery Voltage'')]"

definition protocol_report :: "outcome \<Rightarrow> line list" where
  "protocol_report r =
     (case r of
        Raised e \<Rightarrow> [CouldNotDetermineProtocol]
      | Response None \<Rightarrow> []
      | Response (Some v) \<Rightarrow> (if truthy (Some v) then [CurrentProtocol v] else []))"

definition test_elm327_info :: "connection \<Rightarrow> command list \<Rightarrow> line list \<times> command list" where
  "test_elm327_info conn sent =
     (case query conn sent protocol_cmd of
        (r, sent1) \<Rightarrow>
          (case read_live_loop conn sent1 info_commands of
             (ls, sent2) \<Rightarrow> (protocol_report r @ ls, sent2)))"

text \<open>
  Line 120: \<^verbatim>\<open>2 in pids_09.value\<close>. The test runs through the elements and compares each
  with 2: the elements of the bit array are its bits, \<^verbatim>\<open>True\<close> and \<^verbatim>\<open>False\<close>, and neither
  equals 2, so the test is false whatever the bits; no trouble-code pair equals 2
  either. Membership in text or in a quantity raises \<^verbatim>\<open>TypeError\<close>.
\<close>

fun two_in :: "val \<Rightarrow> exn + bool" where
  "two_in (BitArray bs) = Inr False"
| "two_in (Dtcs ds) = Inr False"
| "two_in v = Inl (TypeError v)"

definition mode09_cmd :: command where
  "mode09_cmd = OBDCommand ''MODE09_PIDS'' ''Mode 09 Supported PIDs'' ''0900'' 4 decoders_pid"

text \<open>Lines 107-128: everything sits in one \<^verbatim>\<open>try\<close>.\<close>

definition mode09_report :: "val option \<Rightarrow> line list" where
  "mode09_report v9 =
     (case v9 of
        None \<Rightarrow> [Mode09NoResponse]
      | Some v \<Rightarrow>
          (if truthy (Some v) then
             Mode09Pids v #
               (case two_in v of
                  Inl x \<Rightarrow> [ErrorTestingPids (Exception x)]
                | Inr True \<Rightarrow> [Pid02Supported]
                | Inr False \<Rightarrow> [Pid02NotSupported])
           else [Mode09NoResponse]))"

definition mode01_report :: "val option \<Rightarrow> line list" where
  "mode01_report v1 =
     (case v1 of
        None \<Rightarrow> []
      | Some v \<Rightarrow> (if truthy (Some v) then [Mode01Pids v] else []))"

definition test_supported_pids :: "connection \<Rightarrow> command list \<Rightarrow> line list \<times> command list" where
  "test_supported_pids conn sent =
     (case query conn sent (Lib ''PIDS_A'') of
        (Raised e, sent1) \<Rightarrow> ([ErrorTestingPids (Message e)], sent1)
      | (Response v1, sent1) \<Rightarrow>
          (case query conn sent1 mode09_cmd of
             (Raised e, sent2) \<Rightarrow> (mode01_report v1 @ [ErrorTestingPids (Message e)], sent2)
           | (Response v9, sent2) \<Rightarrow> (mode01_report v1 @ mode09_report v9, sent2)))"

text \<open>
  Lines 178-186 of \<^verbatim>\<open>main\<close>, once the connection stands: the further probes run only
  when the standard command returned nothing truthy.
\<close>

definition test_vin_main ::
  "(string \<Rightarrow> bool) \<Rightarrow> connection \<Rightarrow> command list \<Rightarrow> line list \<times> command list" where
  "test_vin_main lib conn sent =
     (case test_vin_command lib conn sent of
        (vin, ls0, sent0) \<Rightarrow>
          (if \<not> truthy vin then
             (case test_raw_vin_commands conn sent0 of
                (ls1, sent1) \<Rightarrow>
                  (case test_elm327_info conn sent1 of
                     (ls2, sent2) \<Rightarrow>
                       (case test_supported_pids conn sent2 of
                          (ls3, sent3) \<Rightarrow> (ls0 @ ls1 @ ls2 @ ls3, sent3))))
           else (ls0, sent0)))"

section \<open>print\_codes.py: searching the command table\<close>

text \<open>
  \<^verbatim>\<open>obd.commands\<close> is an object with attributes. An attribute either has both a
  \<^verbatim>\<open>name\<close> and a \<^verbatim>\<open>desc\<close> (its description text is kept) or is something else.
  \<^verbatim>\<open>dir\<close> lists the attribute names sorted by code point, each once; \<^verbatim>\<open>getattr\<close> looks
  one up. Names, descriptions and the search term are Python strings over the whole
  code-point alphabet \<open>'c\<close>.
\<close>

datatype 'c attribute =
    HasNameDesc "'c list" "'c list"
  | Other

type_synonym 'c namespace = "('c list \<times> 'c attribute) list"

datatype 'c found_line =
    Match "'c list" "'c list"
  | NoCommandsFound "'c list"

definition dir_names :: "('c::linorder) namespace \<Rightarrow> 'c list list" where
  "dir_names ns = sort (remdups (map fst ns))"

definition getattr :: "'c namespace \<Rightarrow> 'c list \<Rightarrow> 'c attribute option" where
  "getattr ns a = map_of ns a"

text \<open>
  Lines 84-85: the test on one attribute. \<open>up\<close> is \<^verbatim>\<open>str.upper\<close>, the case mapping of the
  Python at hand over all of Unicode; it is not a letter-by-letter map (it may lengthen
  a string), and the search is modelled for whatever it is.
\<close>

definition term_matches :: "('c list \<Rightarrow> 'c list) \<Rightarrow> 'c list \<Rightarrow> 'c list \<Rightarrow> 'c list \<Rightarrow> bool" where
  "term_matches up search_term attr_name desc \<longleftrightarrow>
     contains (up attr_name) (up search_term) \<or> contains (up desc) (up search_term)"

text \<open>
  Lines 80-87: the loop, threading \<^verbatim>\<open>found\<close>. \<open>underscore\<close> is the code point of
  \<^verbatim>\<open>'_'\<close>.
\<close>

fun search_loop ::
  "('c list \<Rightarrow> 'c list) \<Rightarrow> 'c \<Rightarrow> 'c namespace \<Rightarrow> 'c list \<Rightarrow> bool \<Rightarrow> 'c list list
     \<Rightarrow> 'c found_line list \<times> bool" where
  "search_loop up underscore ns search_term found [] = ([], found)"
| "search_loop up underscore ns search_term found (attr_name # rest) =
     (if \<not> startswith attr_name [underscore] then
        (case getattr ns attr_name of
           Some (HasNameDesc n d) \<Rightarrow>
             (if term_matches up search_term attr_name d then
                (case search_loop up underscore ns search_term True rest of
                   (ls, found') \<Rightarrow> (Match attr_name d # ls, found'))
              else search_loop up underscore ns search_term found rest)
         | _ \<Rightarrow> search_loop up underscore ns search_term found rest)
      else search_loop up underscore ns search_term found rest)"

definition search_commands ::
  "('c list \<Rightarrow> 'c list) \<Rightarrow> 'c \<Rightarrow> 'c list \<Rightarrow> ('c::linorder) namespace \<Rightarrow> 'c found_line list" where
  "search_commands up underscore search_term ns =
     (case search_loop up underscore ns search_term False (dir_names ns) of
        (ls, found) \<Rightarrow> (if \<not> found then ls @ [NoCommandsFound search_term] else ls))"

text \<open>
  Lines 81-87 for one attribute name: the pair the loop prints for it, if any.
\<close>

definition hit ::
  "('c list \<Rightarrow> 'c list) \<Rightarrow> 'c \<Rightarrow> 'c namespace \<Rightarrow> 'c list \<Rightarrow> 'c list \<Rightarrow> ('c list \<times> 'c list) list" where
  "hit up underscore ns t a =
     (if \<not> startswith a [underscore] then
        (case getattr ns a of
           Some (HasNameDesc n d) \<Rightarrow> (if term_matches up t a d then [(a, d)] else [])
         | _ \<Rightarrow> [])
      else [])"

text \<open>
  The commands of a table: the public attributes that have a name and a description,
  each with its description.
\<close>

definition commands_of :: "'c \<Rightarrow> 'c namespace \<Rightarrow> ('c list \<times> 'c list) set" where
  "commands_of underscore ns =
     {(a, d). \<not> startswith a [underscore] \<and> (\<exists>n. getattr ns a = Some (HasNameDesc n d))}"

text \<open>
  The specification's wording on ASCII text, to compare the search with: two characters
  are the same letter when they are equal or are the small and the capital form of one
  of the 26 letters, and a text contains a term, letter case aside, when some stretch of
  it matches the term letter by letter.
\<close>

definition same_letter :: "char \<Rightarrow> char \<Rightarrow> bool" where
  "same_letter c d \<longleftrightarrow>
     c = d \<or> (c, d) \<in> set (zip ascii_lowercase ascii_uppercase)
           \<or> (d, c) \<in> set (zip ascii_lowercase ascii_uppercase)"

definition contains_ignoring_case :: "string \<Rightarrow> string \<Rightarrow> bool" where
  "contains_ignoring_case s t \<longleftrightarrow> (\<exists>ps m ss. s = ps @ m @ ss \<and> list_all2 same_letter m t)"

definition ascii :: "string \<Rightarrow> bool" where
  "ascii s \<longleftrightarrow> list_all (\<lambda>c. \<not> digit7 c) s"

definition ascii_table :: "char namespace \<Rightarrow> bool" where
  "ascii_table ns \<longleftrightarrow>
     list_all (\<lambda>(a, x). ascii a \<and> (case x of HasNameDesc n d \<Rightarrow> ascii d | Other \<Rightarrow> True)) ns"

section \<open>The percent decoder\<close>

text \<open>
  Modelled from the spec: the percent decoder is \<^verbatim>\<open>obd.decoders.percent\<close> of the OBD
  library, which the scripts only pass by reference when they build a command; its body
  is not in the repository. The specification gives it for a single-byte percent field:
  the byte scaled by \<open>value*100/255\<close>, and a decode error when the payload length does
  not match the declared length.
\<close>

datatype DecodeError = LengthMismatch

definition decodePercent :: "8 word list \<Rightarrow> DecodeError + real" where
  "decodePercent payload =
     (case payload of
        [b] \<Rightarrow> Inr (real (unat b) * 100 / 255)
      | _ \<Rightarrow> Inl LengthMismatch)"

section \<open>Example vehicles\<close>

text \<open>
  A vehicle that answers from a fixed table, whatever was sent before, and has no data
  for a command the table does not list; and a library that has every attribute.
\<close>

definition replies :: "(command \<times> outcome) list \<Rightarrow> connection" where
  "replies table sent cmd = (case map_of table cmd of Some r \<Rightarrow> r | None \<Rightarrow> Response None)"

definition full_library :: "string \<Rightarrow> bool" where
  "full_library name = True"

text \<open>
  Readings as the decoders make them: the fuel trim of a data byte, \<open>(b - 128) * 100 / 128\<close>
  percent, which is exact in binary64, and a supported-PID array of 32 bits from the list
  of supported PIDs.
\<close>

definition trim_of_byte :: "int \<Rightarrow> val" where
  "trim_of_byte b = Quantity (Double ((b - 128) * 25) (- 5)) Percent"

definition pid_bits :: "nat list \<Rightarrow> val" where
  "pid_bits supported = BitArray (map (\<lambda>n. n \<in> set supported) [1 ..< 33])"

text \<open>A small command table: public commands, a private one, and a helper method.\<close>

definition example_commands :: "char namespace" where
  "example_commands =
     [(''SPEED'', HasNameDesc ''SPEED'' ''Vehicle Speed''),
      (''SHORT_FUEL_TRIM_1'', HasNameDesc ''SHORT_FUEL_TRIM_1'' ''Short Term Fuel Trim - Bank 1''),
      (''has_command'', Other),
      (''_fuel_cache'', HasNameDesc ''_fuel_cache'' ''private''),
      (''MAF'', HasNameDesc ''MAF'' ''Air Flow Rate (MAF)''),
      (''FUEL_LEVEL'', HasNameDesc ''FUEL_LEVEL'' ''Fuel Level Input'')]"

section \<open>Rounding at work\<close>

text \<open>
  Two sums and a product as binary64 gives them: 25 + 4.6875 is exact;
  9.999999999999998 + 1.3322676295501878e-15 lies half-way between two neighbours and
  goes to the even one, 10.0; and 29.6875 * 0.01 is 0.296875.
\<close>

lemma fadd_exact: "fadd (Double 25 0) (Double 75 (- 4)) = Double 475 (- 4)"
  by (simp add: round53_def bit_length.simps)

lemma fadd_ties_to_even:
  "fadd (Double 5629499534213119 (- 49)) (Double 3 (- 51)) = Double 5629499534213120 (- 49)
   \<and> valof (Double 5629499534213120 (- 49)) = 10"
  by (simp add: round53_def bit_length.simps Let_def)

lemma fmul_percent:
  "fmul (Double 475 (- 4)) lit_0_01 = Double 5348024557502464 (- 54)
   \<and> valof (Double 5348024557502464 (- 54)) = 0.296875"
  by (simp add: round53_def bit_length.simps lit_0_01_def Let_def)

section \<open>Shared facts about the loops\<close>

lemma read_live_loop_sent: "snd (read_live_loop conn sent cmds) = sent @ map fst cmds"
  by (induction cmds arbitrary: sent) (auto simp: query_def split_beta)

lemma read_live_loop_lines:
  "fst (read_live_loop conn sent cmds) =
     map2 live_report (map snd cmds) (outcomes conn sent (map fst cmds))"
  by (induction cmds arbitrary: sent) (auto simp: query_def split_beta)

lemma read_o2_loop_sent: "snd (read_o2_loop conn sent cs) = sent @ map fst cs"
  by (induction cs arbitrary: sent) (auto simp: query_def split_beta)



lemma lower_char_y: "lower_char c = CHR ''y'' \<longleftrightarrow> c = CHR ''y'' \<or> c = CHR ''Y''"
  by (simp add: lower_char_def ascii_lowercase_def ascii_uppercase_def)

lemma lower_y: "lower response = ''y'' \<longleftrightarrow> response = ''y'' \<or> response = ''Y''"
  by (cases response) (auto simp: lower_def lower_char_y)

lemma test_honda_pids_sent:
  "snd (snd (test_honda_pids conn sent cands)) = sent @ map honda_cmd cands"
  by (induction cands arbitrary: sent)
     (auto simp: query_def split_beta split: outcome.splits option.splits)

lemma test_honda_pids_working:
  "fst (snd (test_honda_pids conn sent cands)) =
     answered cands (outcomes conn sent (map honda_cmd cands))"
  by (induction cands arbitrary: sent)
     (auto simp: query_def split_beta split: outcome.splits option.splits)

lemma test_standard_commands_sent:
  "snd (snd (test_standard_commands lib conn sent cs)) = sent @ map Lib (filter lib (map fst cs))"
  by (induction cs arbitrary: sent)
     (auto simp: query_def split_beta split: outcome.splits option.splits)

lemma test_standard_commands_working:
  "fst (snd (test_standard_commands lib conn sent cs)) =
     answered (filter (\<lambda>c. lib (fst c)) cs)
       (outcomes conn sent (map Lib (filter lib (map fst cs))))"
  by (induction cs arbitrary: sent)
     (auto simp: query_def split_beta split: outcome.splits option.splits)

lemma answered_none:
  "\<forall>r \<in> set rs. \<forall>v. r \<noteq> Response (Some v) \<Longrightarrow> answered cs rs = []"
  by (induction cs rs rule: answered.induct) auto

lemma test_vin_command_sent:
  "snd (snd (test_vin_command lib conn sent)) = (if lib ''VIN'' then sent @ [Lib ''VIN''] else sent)"
  by (auto simp: test_vin_command_def query_def split: outcome.splits option.splits)

lemma test_vin_command_lines:
  "Pid02NotSupported \<notin> set (fst (snd (test_vin_command lib conn sent)))"
  by (auto simp: test_vin_command_def query_def split: outcome.splits option.splits)

lemma test_vin_command_found:
  "truthy (fst (test_vin_command lib conn sent)) \<longleftrightarrow>
     lib ''VIN'' \<and> (\<exists>v. conn sent (Lib ''VIN'') = Response (Some v) \<and> truthy (Some v))"
  by (auto simp: test_vin_command_def query_def split: outcome.splits option.splits)

lemma test_raw_vin_loop_sent:
  "snd (test_raw_vin_loop conn sent ps) = sent @ map vin_test_cmd ps"
  by (induction ps arbitrary: sent) (auto simp: query_def split_beta)

lemma test_elm327_info_sent:
  "snd (test_elm327_info conn sent) =
     sent @ [protocol_cmd, Lib ''ELM_VERSION'', Lib ''ELM_VOLTAGE'']"
  by (simp add: test_elm327_info_def query_def split_beta read_live_loop_sent info_commands_def)

lemma test_supported_pids_sent:
  "snd (test_supported_pids conn sent) =
     sent @ (case conn sent (Lib ''PIDS_A'') of
               Raised e \<Rightarrow> [Lib ''PIDS_A'']
             | Response v \<Rightarrow> [Lib ''PIDS_A'', mode09_cmd])"
  by (auto simp: test_supported_pids_def query_def split: outcome.splits)

lemma test_vin_main_sent:
  assumes "\<not> (lib ''VIN'' \<and> (\<exists>v. conn sent (Lib ''VIN'') = Response (Some v) \<and> truthy (Some v)))"
  shows "snd (test_vin_main lib conn sent) =
           (let h = (if lib ''VIN'' then sent @ [Lib ''VIN''] else sent)
                    @ map vin_test_cmd vin_pids
                    @ [protocol_cmd, Lib ''ELM_VERSION'', Lib ''ELM_VOLTAGE'']
            in h @ (case conn h (Lib ''PIDS_A'') of
                      Raised e \<Rightarrow> [Lib ''PIDS_A'']
                    | Response v \<Rightarrow> [Lib ''PIDS_A'', mode09_cmd]))"
proof -
  let ?s0 = "snd (snd (test_vin_command lib conn sent))"
  let ?s1 = "snd (test_raw_vin_commands conn ?s0)"
  let ?s2 = "snd (test_elm327_info conn ?s1)"
  from assms have "\<not> truthy (fst (test_vin_command lib conn sent))"
    unfolding test_vin_command_found .
  then have m: "snd (test_vin_main lib conn sent) = snd (test_supported_pids conn ?s2)"
    by (simp add: test_vin_main_def split_beta)
  have s2: "?s2 = (if lib ''VIN'' then sent @ [Lib ''VIN''] else sent)
            @ map vin_test_cmd vin_pids @ [protocol_cmd, Lib ''ELM_VERSION'', Lib ''ELM_VOLTAGE'']"
    by (simp add: test_elm327_info_sent test_raw_vin_commands_def test_raw_vin_loop_sent
          test_vin_command_sent)
  show ?thesis
    unfolding m test_supported_pids_sent s2 Let_def ..
qed

lemma test_vin_main_found:
  assumes "lib ''VIN''" "conn sent (Lib ''VIN'') = Response (Some v)" "truthy (Some v)"
  shows "test_vin_main lib conn sent = ([VinCommandExists, VinRetrieved v], sent @ [Lib ''VIN''])"
  using assms by (simp add: test_vin_main_def test_vin_command_def query_def)

lemma test_vin_main_not_supported:
  assumes "Pid02NotSupported \<in> set (fst (test_vin_main lib conn sent))"
  shows "vin_test_cmd (''0902'', ''Standard VIN Request (Mode 09, PID 02)'')
           \<in> set (snd (test_vin_main lib conn sent))"
proof (cases "truthy (fst (test_vin_command lib conn sent))")
  case True
  then have "fst (test_vin_main lib conn sent) = fst (snd (test_vin_command lib conn sent))"
    by (simp add: test_vin_main_def split_beta)
  with assms show ?thesis using test_vin_command_lines by metis
next
  case False
  then have "\<not> (lib ''VIN'' \<and> (\<exists>v. conn sent (Lib ''VIN'') = Response (Some v) \<and> truthy (Some v)))"
    unfolding test_vin_command_found .
  from test_vin_main_sent [of lib conn sent, OF this] show ?thesis
    by (auto simp: vin_pids_def Let_def)
qed


section \<open>Shared facts about strings and the search\<close>

lemma table_eq:
  assumes k: "distinct (map fst L)" and v: "distinct (map snd L)"
      and d: "fst ` set L \<inter> snd ` set L = {}"
  shows "(case map_of L c of Some u \<Rightarrow> u | None \<Rightarrow> c) =
         (case map_of L c' of Some u \<Rightarrow> u | None \<Rightarrow> c')
         \<longleftrightarrow> c = c' \<or> (c, c') \<in> set L \<or> (c', c) \<in> set L"
proof -
  have inj: "(a, u) \<in> set L \<Longrightarrow> (b, u) \<in> set L \<Longrightarrow> a = b" for a b u
    using v by (metis distinct_map fst_conv inj_onD snd_conv)
  have key: "(a, u) \<in> set L \<Longrightarrow> a \<in> fst ` set L" for a u
    by force
  have val: "(a, u) \<in> set L \<Longrightarrow> u \<in> snd ` set L" for a u
    by force
  have some: "map_of L a = Some u \<longleftrightarrow> (a, u) \<in> set L" for a u
    using k by simp
  have none: "map_of L a = None \<longleftrightarrow> a \<notin> fst ` set L" for a
    by (simp add: map_of_eq_None_iff)
  have func: "(a, u) \<in> set L \<Longrightarrow> (a, w) \<in> set L \<Longrightarrow> u = w" for a u w
    using some by (metis option.inject)
  have notkey: "map_of L a = None \<Longrightarrow> (a, u) \<notin> set L" for a u
    using none key by blast
  have notval: "(a, u) \<in> set L \<Longrightarrow> (u, w) \<notin> set L" for a u w
    using key val d by blast
  show ?thesis
  proof (cases "map_of L c")
    case None
    note nc = None
    show ?thesis
    proof (cases "map_of L c'")
      case None
      have "(c, c') \<notin> set L" "(c', c) \<notin> set L"
        using notkey nc None by blast+
      then show ?thesis
        by (simp add: nc None)
    next
      case (Some u')
      then have m: "(c', u') \<in> set L"
        using some by blast
      have "(c, c') \<notin> set L" "c \<noteq> c'"
        using notkey nc Some by auto
      moreover have "(c', c) \<in> set L \<longleftrightarrow> c = u'"
        using m func by blast
      ultimately show ?thesis
        by (simp add: nc Some)
    qed
  next
    case (Some u)
    note sc = Some
    then have m: "(c, u) \<in> set L"
      using some by blast
    show ?thesis
    proof (cases "map_of L c'")
      case None
      have "(c', c) \<notin> set L" "c \<noteq> c'"
        using notkey sc None by auto
      moreover have "(c, c') \<in> set L \<longleftrightarrow> u = c'"
        using m func by blast
      ultimately show ?thesis
        by (simp add: sc None)
    next
      case (Some u')
      then have m': "(c', u') \<in> set L"
        using some by blast
      have "(c, c') \<notin> set L" "(c', c) \<notin> set L"
        using m m' notval by blast+
      moreover have "u = u' \<longleftrightarrow> c = c'"
        using m m' inj sc Some by auto
      ultimately show ?thesis
        by (simp add: sc Some)
    qed
  qed
qed

lemma upper_char_eq: "upper_char c = upper_char d \<longleftrightarrow> same_letter c d"
  unfolding upper_char_def same_letter_def
  by (rule table_eq) (simp_all add: ascii_lowercase_def ascii_uppercase_def)

lemma upper_eq: "upper m = upper t \<longleftrightarrow> list_all2 same_letter m t"
  unfolding upper_def
proof (induction m arbitrary: t)
  case Nil
  then show ?case by auto
next
  case (Cons c m)
  then show ?case by (cases t) (auto simp: upper_char_eq)
qed

lemma startswith_iff: "startswith s t \<longleftrightarrow> (\<exists>ss. s = t @ ss)"
  by (induction s t rule: startswith.induct) auto

lemma contains_iff: "contains s t \<longleftrightarrow> (\<exists>ps ss. s = ps @ t @ ss)"
proof (induction s)
  case Nil
  then show ?case by auto
next
  case (Cons c cs)
  have "(\<exists>ps ss. c # cs = ps @ t @ ss) \<longleftrightarrow>
          (\<exists>ss. c # cs = t @ ss) \<or> (\<exists>ps ss. cs = ps @ t @ ss)"
    by (auto simp: Cons_eq_append_conv)
  then show ?case using Cons by (simp add: startswith_iff del: startswith.simps)
qed

lemma contains_upper: "contains (upper s) (upper t) \<longleftrightarrow> contains_ignoring_case s t"
proof
  assume "contains (upper s) (upper t)"
  then obtain ps ss where "map upper_char s = ps @ map upper_char t @ ss"
    unfolding contains_iff upper_def by blast
  then obtain a b c where "s = a @ b @ c" "map upper_char b = map upper_char t"
    by (metis map_eq_append_conv)
  then show "contains_ignoring_case s t"
    unfolding contains_ignoring_case_def using upper_eq [of b t] by (auto simp: upper_def)
next
  assume "contains_ignoring_case s t"
  then obtain ps m ss where "s = ps @ m @ ss" "upper m = upper t"
    unfolding contains_ignoring_case_def upper_eq by blast
  then have "upper s = upper ps @ upper t @ upper ss"
    by (simp add: upper_def)
  then show "contains (upper s) (upper t)"
    unfolding contains_iff by blast
qed

lemma search_loop_lines:
  "fst (search_loop up us ns t f names) =
     map (\<lambda>(a, d). Match a d) (concat (map (hit up us ns t) names))"
  by (induction names arbitrary: f)
     (simp_all add: hit_def split_beta split: option.splits attribute.splits)

lemma search_loop_found:
  "snd (search_loop up us ns t f names) \<longleftrightarrow> f \<or> concat (map (hit up us ns t) names) \<noteq> []"
  by (induction names arbitrary: f)
     (simp_all add: hit_def split_beta split: option.splits attribute.splits)

lemma hits_fst:
  "map fst (concat (map (hit up us ns t) names)) = filter (\<lambda>a. hit up us ns t a \<noteq> []) names"
  by (induction names) (simp_all add: hit_def split: option.splits attribute.splits)

lemma hit_mem:
  "(a, d) \<in> set (hit up us ns t b) \<longleftrightarrow>
     b = a \<and> (a, d) \<in> commands_of us ns \<and> term_matches up t a d"
proof (cases "getattr ns b")
  case None
  then have "hit up us ns t b = []"
    by (simp add: hit_def)
  with None show ?thesis
    by (fastforce simp: commands_of_def)
next
  case (Some x)
  show ?thesis
  proof (cases x)
    case (HasNameDesc n' d')
    with Some have "hit up us ns t b =
        (if \<not> startswith b [us] \<and> term_matches up t b d' then [(b, d')] else [])"
      by (simp add: hit_def)
    with Some HasNameDesc show ?thesis
      by (fastforce simp: commands_of_def)
  next
    case Other
    with Some have "hit up us ns t b = []"
      by (simp add: hit_def)
    with Some Other show ?thesis
      by (fastforce simp: commands_of_def)
  qed
qed

lemma getattr_in_dir: "getattr ns a = Some x \<Longrightarrow> a \<in> set (dir_names ns)"
  by (auto simp: getattr_def dir_names_def dest!: map_of_SomeD intro: rev_image_eqI)

lemma hits_set:
  "set (concat (map (hit up us ns t) (dir_names ns))) =
     {(a, d) \<in> commands_of us ns. term_matches up t a d}"
proof -
  have "(a, d) \<in> set (concat (map (hit up us ns t) (dir_names ns))) \<longleftrightarrow>
          (a, d) \<in> commands_of us ns \<and> term_matches up t a d" for a d
  proof -
    have "(a, d) \<in> set (concat (map (hit up us ns t) (dir_names ns))) \<longleftrightarrow>
            (\<exists>b \<in> set (dir_names ns). (a, d) \<in> set (hit up us ns t b))"
      by simp
    also have "\<dots> \<longleftrightarrow> a \<in> set (dir_names ns) \<and> (a, d) \<in> commands_of us ns
                 \<and> term_matches up t a d"
      unfolding hit_mem by blast
    also have "\<dots> \<longleftrightarrow> (a, d) \<in> commands_of us ns \<and> term_matches up t a d"
      using getattr_in_dir by (fastforce simp: commands_of_def)
    finally show ?thesis .
  qed
  then show ?thesis
    by (intro set_eqI) (simp add: split_paired_all)
qed

lemma search_general:
  "\<exists>hits. search_commands up us t ns =
            (if hits = [] then [NoCommandsFound t] else map (\<lambda>(a, d). Match a d) hits)
     \<and> sorted (map fst hits) \<and> distinct (map fst hits)
     \<and> set hits = {(a, d) \<in> commands_of us ns. term_matches up t a d}"
proof -
  let ?hits = "concat (map (hit up us ns t) (dir_names ns))"
  have 1: "search_commands up us t ns =
            (if ?hits = [] then [NoCommandsFound t] else map (\<lambda>(a, d). Match a d) ?hits)"
    by (simp add: search_commands_def split_beta search_loop_lines search_loop_found)
  have 2: "sorted (map fst ?hits)"
    unfolding hits_fst by (rule sorted_wrt_filter) (simp add: dir_names_def)
  have 3: "distinct (map fst ?hits)"
    unfolding hits_fst by (simp add: dir_names_def)
  from 1 2 3 hits_set [of up us ns t] show ?thesis by blast
qed

lemma ascii_commands:
  assumes "ascii_table ns" "(a, d) \<in> commands_of us ns"
  shows "ascii a \<and> ascii d"
proof -
  from assms(2) obtain n where "map_of ns a = Some (HasNameDesc n d)"
    by (auto simp: commands_of_def getattr_def)
  then have "(a, HasNameDesc n d) \<in> set ns"
    by (rule map_of_SomeD)
  with assms(1) show ?thesis
    by (auto simp: ascii_table_def list_all_iff)
qed


section \<open>Fuel-trim verdicts\<close>

text \<open>
  C1, at the trims the decoder makes of the data bytes 160 and 122, that is 25 percent
  and -4.6875 percent: the magnitudes add up to 29.6875 percent, the comparisons with the
  bare numbers 10 and 20 read that quantity as 0.296875, and the analysis prints
  "Excellent", the verdict \<open>Normal\<close>, where a total of 20 or more should give \<open>High\<close>.
\<close>

theorem percent_trims_judged_excellent:
  "analyze_p0420_without_o2
     (replies [(Lib ''SHORT_FUEL_TRIM_1'', Response (Some (trim_of_byte 160))),
               (Lib ''LONG_FUEL_TRIM_1'', Response (Some (trim_of_byte 122)))]) [] =
     ([TrimValues (Some (Quantity (Double 800 (- 5)) Percent))
                  (Some (Quantity (Double (- 150) (- 5)) Percent)),
       FuelMixture Normal],
      [Lib ''SHORT_FUEL_TRIM_1'', Lib ''LONG_FUEL_TRIM_1''])
   \<and> valof (Double 800 (- 5)) = 25 \<and> valof (Double (- 150) (- 5)) = - 4.6875"
  by (simp add: analyze_p0420_without_o2_def query_def replies_def trim_of_byte_def
        fuel_mixture_block_def fuel_mixture_def round53_def bit_length.simps lit_0_01_def
        Let_def)




section \<open>O2 voltage verdicts\<close>

text \<open>
  C2, at any voltage reading of any sensor, such as 0.05 V upstream: the reading is
  printed, the comparison of the volt quantity with a bare number is refused, and the
  error line follows in place of a verdict. No reading in volt is ever classified.
\<close>

theorem volt_reading_is_not_classified:
  "o2_report description (Response (Some (Quantity m Volt))) =
     [Reading description (Quantity m Volt), ErrorIn description (CompareError (Quantity m Volt))]"
  by (simp add: o2_report_def analyze_voltage_def)

section \<open>Passes over a list of commands\<close>

text \<open>
  C9. A pass over a list of commands sends every command of the list exactly once, in
  list order, whatever the earlier queries did: the transmissions added are the list's
  commands, and the line for each command reports that command's own outcome. This
  holds for the live-data pass and for the O2 sensor pass, on any list and on the
  scripts' own lists.
\<close>

theorem every_command_attempted_once:
  "snd (read_live_loop conn sent cmds) = sent @ map fst cmds
   \<and> fst (read_live_loop conn sent cmds) =
       map2 live_report (map snd cmds) (outcomes conn sent (map fst cmds))
   \<and> snd (read_live_data conn sent) = sent @ map fst live_commands
   \<and> snd (read_o2_loop conn sent cs) = sent @ map fst cs
   \<and> snd (read_o2_sensors lib conn sent) = sent @ map fst (o2_commands lib)"
  by (simp add: read_live_loop_sent read_live_loop_lines read_o2_loop_sent
        read_live_data_def read_o2_sensors_def)

theorem every_command_attempted_once_witness:
  "snd (read_live_data (replies [(Lib ''RPM'', Raised ''timeout'')]) []) =
     [Lib ''RPM'', Lib ''SPEED'', Lib ''THROTTLE_POS'', Lib ''ENGINE_LOAD'', Lib ''COOLANT_TEMP'',
      Lib ''INTAKE_TEMP'', Lib ''MAF'', Lib ''FUEL_PRESSURE'', Lib ''O2_B1S1'',
      Lib ''SHORT_FUEL_TRIM_1'', Lib ''LONG_FUEL_TRIM_1'']"
  using every_command_attempted_once
          [of "replies [(Lib ''RPM'', Raised ''timeout'')]" "[]" "[]" "[]" full_library]
  by (simp add: live_commands_def)

section \<open>Clearing trouble codes\<close>

text \<open>
  C10. The clear command is sent iff the typed answer, lowercased, is "y" (that is, the
  answer is "y" or "Y"), and then it is the only transmission. On every other answer
  nothing is sent and the connection is left as it was, so the vehicle answers any later
  query as it would have before.
\<close>

theorem clear_dtcs_only_on_y:
  "snd (clear_dtcs response conn sent) =
     (if lower response = ''y'' then sent @ [Lib ''CLEAR_DTC''] else sent)
   \<and> (lower response = ''y'' \<longleftrightarrow> response = ''y'' \<or> response = ''Y'')
   \<and> (lower response \<noteq> ''y'' \<longrightarrow>
        clear_dtcs response conn sent = ([ClearingCancelled], sent)
        \<and> query conn (snd (clear_dtcs response conn sent)) cmd = query conn sent cmd)"
  by (auto simp: clear_dtcs_def query_def lower_y split: outcome.splits)

theorem clear_dtcs_only_on_y_witness:
  "lower ''no'' \<noteq> ''y''
   \<and> clear_dtcs ''no'' (replies []) [Lib ''GET_DTC''] = ([ClearingCancelled], [Lib ''GET_DTC''])
   \<and> snd (clear_dtcs ''Y'' (replies []) [Lib ''GET_DTC'']) = [Lib ''GET_DTC'', Lib ''CLEAR_DTC'']"
  using clear_dtcs_only_on_y [of "''no''" "replies []" "[Lib ''GET_DTC'']" "Lib ''GET_DTC''"]
        clear_dtcs_only_on_y [of "''Y''" "replies []" "[Lib ''GET_DTC'']" "Lib ''GET_DTC''"]
  by simp

section \<open>Probing candidate commands\<close>

text \<open>
  C3, as the claim states it, on the candidates A (no data), B (5 percent), C (9
  percent): the probe still transmits C after B answered, and returns both B and C.
\<close>

theorem later_candidates_still_queried:
  "test_honda_pids
     (replies [(honda_cmd (''0116'', ''B''), Response (Some (Quantity (Double 5 0) Percent))),
               (honda_cmd (''0117'', ''C''), Response (Some (Quantity (Double 9 0) Percent)))]) []
     [(''0115'', ''A''), (''0116'', ''B''), (''0117'', ''C'')] =
   ([NotAvailable ''A'', Reading ''B'' (Quantity (Double 5 0) Percent),
     Reading ''C'' (Quantity (Double 9 0) Percent)],
    [(''0116'', ''B'', Quantity (Double 5 0) Percent),
     (''0117'', ''C'', Quantity (Double 9 0) Percent)],
    [honda_cmd (''0115'', ''A''), honda_cmd (''0116'', ''B''), honda_cmd (''0117'', ''C'')])"
  by (simp add: query_def replies_def honda_cmd_def)

text \<open>
  C3, amended. The probe queries the candidates in the given order and does not stop at
  the first that answers: every candidate is transmitted, once, whatever the earlier
  results (for the standard commands, every candidate the library has). Each loop, and
  the whole probe, returns every candidate whose value is present, with its value, in
  candidate order, so the first entry is the first candidate that answered; when no
  candidate has a value the result is the empty list.
\<close>

theorem all_candidates_queried_in_order:
  "snd (snd (test_honda_pids conn sent cands)) = sent @ map honda_cmd cands
   \<and> fst (snd (test_honda_pids conn sent cands)) =
       answered cands (outcomes conn sent (map honda_cmd cands))
   \<and> snd (snd (test_standard_commands lib conn sent cs)) =
       sent @ map Lib (filter lib (map fst cs))
   \<and> fst (snd (test_standard_commands lib conn sent cs)) =
       answered (filter (\<lambda>c. lib (fst c)) cs)
         (outcomes conn sent (map Lib (filter lib (map fst cs))))
   \<and> snd (snd (test_all_o2_sensor_pids lib conn sent)) =
       sent @ map Lib (filter lib (map fst standard_pids)) @ map honda_cmd honda_specific_pids
   \<and> fst (snd (test_all_o2_sensor_pids lib conn sent)) =
       answered (filter (\<lambda>c. lib (fst c)) standard_pids)
         (outcomes conn sent (map Lib (filter lib (map fst standard_pids))))
       @ answered honda_specific_pids
           (outcomes conn (sent @ map Lib (filter lib (map fst standard_pids)))
              (map honda_cmd honda_specific_pids))
   \<and> ((\<forall>r \<in> set rs. \<forall>v. r \<noteq> Response (Some v)) \<longrightarrow> answered any rs = [])"
  by (simp add: test_honda_pids_sent test_honda_pids_working answered_none
        test_standard_commands_sent test_standard_commands_working
        test_all_o2_sensor_pids_def split_beta)

theorem all_candidates_queried_in_order_witness:
  "outcomes (replies []) [] (map honda_cmd honda_specific_pids) =
     [Response None, Response None, Response None, Response None, Response None]
   \<and> fst (snd (test_all_o2_sensor_pids full_library (replies []) [])) = []
   \<and> snd (snd (test_all_o2_sensor_pids full_library (replies []) [])) =
       map Lib (map fst standard_pids) @ map honda_cmd honda_specific_pids"
  using all_candidates_queried_in_order
          [of "replies []" "[]" honda_specific_pids full_library "[]"
              "outcomes (replies []) [] (map honda_cmd honda_specific_pids)" "[]"]
  by (simp add: replies_def honda_specific_pids_def standard_pids_def full_library_def)

section \<open>The VIN probes\<close>

text \<open>
  C4, as the claim states it, on a vehicle with no VIN answer whose Mode-09 bit array has
  the bit of PID 2 clear: the raw PID-02 request is transmitted all the same, before the
  bit array is read.
\<close>

theorem raw_request_precedes_bitmask:
  "test_vin_main full_library (replies [(mode09_cmd, Response (Some (pid_bits [1])))]) [] =
     ([VinCommandExists, VinNoData,
       RawNoResponse ''0902'', RawNoResponse ''0904'', RawNoResponse ''090A'',
       NotAvailable ''ELM327 Version'', NotAvailable ''Battery Voltage'',
       Mode09Pids (pid_bits [1]), Pid02NotSupported],
      [Lib ''VIN'',
       OBDCommand ''VIN_TEST'' ''Standard VIN Request (Mode 09, PID 02)'' ''0902'' 17 decoders_raw_string,
       OBDCommand ''VIN_TEST'' ''Calibration ID'' ''0904'' 17 decoders_raw_string,
       OBDCommand ''VIN_TEST'' ''ECU Name'' ''090A'' 17 decoders_raw_string,
       OBDCommand ''PROTOCOL'' ''Current Protocol'' ''ATDP'' 1 decoders_raw_string,
       Lib ''ELM_VERSION'', Lib ''ELM_VOLTAGE'', Lib ''PIDS_A'',
       OBDCommand ''MODE09_PIDS'' ''Mode 09 Supported PIDs'' ''0900'' 4 decoders_pid])
   \<and> pid_bits [1] = BitArray (True # replicate 31 False)"
  by (simp add: test_vin_main_def test_vin_command_def test_raw_vin_commands_def
        test_elm327_info_def test_supported_pids_def query_def replies_def full_library_def
        vin_pids_def vin_test_cmd_def raw_vin_report_def protocol_cmd_def info_commands_def
        live_report_def mode09_cmd_def mode01_report_def mode09_report_def protocol_report_def
        pid_bits_def eval_nat_numeral)

text \<open>
  C4, amended. The standard VIN command comes first; a truthy answer is the VIN found and
  nothing else is transmitted. On any other answer (or without the command in the
  library) the run transmits, in this order, the three raw Mode-09 requests (PID 02
  first, each sent whatever the others returned), the three adapter queries, the Mode-01
  supported-PID query and then the Mode-09 supported-PID query, which is left out exactly
  when the Mode-01 query raises. The bit array is read last, so "not supported" is
  reported only after the raw PID-02 request was made.
\<close>

theorem vin_probe_order:
  "(lib ''VIN'' \<and> conn sent (Lib ''VIN'') = Response (Some v) \<and> truthy (Some v) \<longrightarrow>
      test_vin_main lib conn sent = ([VinCommandExists, VinRetrieved v], sent @ [Lib ''VIN'']))
   \<and> (\<not> (lib ''VIN'' \<and> (\<exists>v. conn sent (Lib ''VIN'') = Response (Some v) \<and> truthy (Some v))) \<longrightarrow>
        snd (test_vin_main lib conn sent) =
          (let h = (if lib ''VIN'' then sent @ [Lib ''VIN''] else sent)
                   @ map vin_test_cmd vin_pids
                   @ [protocol_cmd, Lib ''ELM_VERSION'', Lib ''ELM_VOLTAGE'']
           in h @ (case conn h (Lib ''PIDS_A'') of
                     Raised e \<Rightarrow> [Lib ''PIDS_A'']
                   | Response v \<Rightarrow> [Lib ''PIDS_A'', mode09_cmd])))
   \<and> (Pid02NotSupported \<in> set (fst (test_vin_main lib conn sent)) \<longrightarrow>
        vin_test_cmd (''0902'', ''Standard VIN Request (Mode 09, PID 02)'')
          \<in> set (snd (test_vin_main lib conn sent)))"
  using test_vin_main_found [of lib conn sent v] test_vin_main_sent [of lib conn sent]
        test_vin_main_not_supported [of lib conn sent]
  by blast

theorem vin_probe_order_witness:
  "truthy (Some (Str ''JH4CU2F60AC000001''))
   \<and> test_vin_main full_library
        (replies [(Lib ''VIN'', Response (Some (Str ''JH4CU2F60AC000001'')))]) [] =
       ([VinCommandExists, VinRetrieved (Str ''JH4CU2F60AC000001'')], [Lib ''VIN''])
   \<and> snd (test_vin_main full_library (replies [(Lib ''PIDS_A'', Raised ''timeout'')]) []) =
       [Lib ''VIN''] @ map vin_test_cmd vin_pids
       @ [protocol_cmd, Lib ''ELM_VERSION'', Lib ''ELM_VOLTAGE'', Lib ''PIDS_A'']
   \<and> Pid02NotSupported \<in> set (fst (test_vin_main full_library
        (replies [(mode09_cmd, Response (Some (pid_bits [1])))]) []))
   \<and> vin_test_cmd (''0902'', ''Standard VIN Request (Mode 09, PID 02)'')
        \<in> set (snd (test_vin_main full_library
             (replies [(mode09_cmd, Response (Some (pid_bits [1])))]) []))"
proof -
  have p: "Pid02NotSupported \<in> set (fst (test_vin_main full_library
        (replies [(mode09_cmd, Response (Some (pid_bits [1])))]) []))"
    by (simp add: test_vin_main_def test_vin_command_def test_raw_vin_commands_def
        test_elm327_info_def test_supported_pids_def query_def replies_def full_library_def
        vin_pids_def vin_test_cmd_def raw_vin_report_def protocol_cmd_def info_commands_def
        live_report_def mode09_cmd_def mode01_report_def mode09_report_def protocol_report_def
        pid_bits_def eval_nat_numeral)
  show ?thesis
    using p
      vin_probe_order [of full_library
        "replies [(Lib ''VIN'', Response (Some (Str ''JH4CU2F60AC000001'')))]" "[]"
        "Str ''JH4CU2F60AC000001''"]
      vin_probe_order [of full_library "replies [(Lib ''PIDS_A'', Raised ''timeout'')]" "[]"
        "Str ''x''"]
      vin_probe_order [of full_library "replies [(mode09_cmd, Response (Some (pid_bits [1])))]" "[]"
        "Str ''x''"]
    by (simp add: replies_def full_library_def)
qed

section \<open>Failures of a query\<close>

text \<open>
  C8, as the claim states it: a query that raises leaves no trace in what the function
  returns. The VIN probe returns \<^verbatim>\<open>None\<close> as it does for a vehicle with no data, and the
  O2 probe returns the same empty list of working sensors.
\<close>

theorem failure_absent_from_return_value:
  "test_vin_command full_library (replies [(Lib ''VIN'', Raised ''timeout'')]) [] =
     (None, [VinCommandExists, VinError ''timeout''], [Lib ''VIN''])
   \<and> fst (test_vin_command full_library (replies []) []) = None
   \<and> fst (snd (test_honda_pids (replies [(honda_cmd (''0115'', ''A''), Raised ''timeout'')]) []
              [(''0115'', ''A'')])) = []
   \<and> fst (snd (test_honda_pids (replies []) [] [(''0115'', ''A'')])) = []"
  by (simp add: test_vin_command_def query_def replies_def full_library_def honda_cmd_def)

text \<open>
  C8, amended. An exception raised by a query is never dropped silently. At every query
  of the four scripts it is caught and an error line is printed: with the exception's
  message everywhere but in the protocol probe, which prints a fixed sentence, and in the
  live O2 monitor, which prints a bare "Error". A loop then goes on with its next
  command; a function-wide handler ends the function's probing. The failure is reported
  on the console only, not in the value returned to the caller.
\<close>

theorem failures_are_printed:
  "(conn sent (Lib ''SHORT_FUEL_TRIM_1'') = Raised e \<longrightarrow>
      analyze_p0420_without_o2 conn sent =
        ([ErrorReadingFuelTrims (Message e)], sent @ [Lib ''SHORT_FUEL_TRIM_1'']))
   \<and> (conn sent (Lib ''SHORT_FUEL_TRIM_1'') = Response stft
        \<and> conn (sent @ [Lib ''SHORT_FUEL_TRIM_1'']) (Lib ''LONG_FUEL_TRIM_1'') = Raised e \<longrightarrow>
      analyze_p0420_without_o2 conn sent =
        ([ErrorReadingFuelTrims (Message e)],
         sent @ [Lib ''SHORT_FUEL_TRIM_1'', Lib ''LONG_FUEL_TRIM_1'']))
   \<and> (lib name \<and> conn sent (Lib name) = Raised e \<longrightarrow>
      test_standard_commands lib conn sent ((name, description) # cands) =
        (Error description e # fst (test_standard_commands lib conn (sent @ [Lib name]) cands),
         snd (test_standard_commands lib conn (sent @ [Lib name]) cands)))
   \<and> (conn sent (honda_cmd (name, description)) = Raised e \<longrightarrow>
      test_honda_pids conn sent ((name, description) # cands) =
        (Error description e
           # fst (test_honda_pids conn (sent @ [honda_cmd (name, description)]) cands),
         snd (test_honda_pids conn (sent @ [honda_cmd (name, description)]) cands)))
   \<and> (conn sent (afr_cmd (name, description)) = Raised e \<longrightarrow>
      test_wideband_loop conn sent ((name, description) # cands) =
        (Error description e
           # fst (test_wideband_loop conn (sent @ [afr_cmd (name, description)]) cands),
         snd (test_wideband_loop conn (sent @ [afr_cmd (name, description)]) cands)))
   \<and> (conn sent (monitor_cmd lib s) = Raised e \<longrightarrow>
      monitor_round lib conn sent (s # sensors) =
        (BareError (take 30 (fst (snd s)))
           # fst (monitor_round lib conn (sent @ [monitor_cmd lib s]) sensors),
         snd (monitor_round lib conn (sent @ [monitor_cmd lib s]) sensors)))
   \<and> (conn sent cmd = Raised e \<longrightarrow>
      read_o2_loop conn sent ((cmd, description, location) # o2s) =
        (Error description e # fst (read_o2_loop conn (sent @ [cmd]) o2s),
         snd (read_o2_loop conn (sent @ [cmd]) o2s)))
   \<and> (conn sent cmd = Raised e \<longrightarrow>
      read_fuel_trim_loop conn sent ((cmd, description) # cmds) =
        (Error description e # fst (read_fuel_trim_loop conn (sent @ [cmd]) cmds),
         snd (read_fuel_trim_loop conn (sent @ [cmd]) cmds)))
   \<and> (lib name \<and> conn sent (Lib name) = Raised e \<longrightarrow>
      read_catalyst_loop lib conn sent (name # names) =
        (ErrorReadingCommand name e # fst (read_catalyst_loop lib conn (sent @ [Lib name]) names),
         snd (read_catalyst_loop lib conn (sent @ [Lib name]) names)))
   \<and> (conn sent (Lib ''GET_DTC'') = Raised e \<longrightarrow>
      read_dtcs lib conn sent = ([ErrorReadingDtcs (Message e)], sent @ [Lib ''GET_DTC'']))
   \<and> (lib ''GET_PENDING_DTC'' \<and> conn sent (Lib ''GET_PENDING_DTC'') = Raised e \<longrightarrow>
      read_pending lib conn sent =
        ([CouldNotReadPending (Message e)], sent @ [Lib ''GET_PENDING_DTC'']))
   \<and> (\<not> lib ''GET_PENDING_DTC'' \<and> lib ''PENDING_DTC''
        \<and> conn sent (Lib ''PENDING_DTC'') = Raised e \<longrightarrow>
      read_pending lib conn sent =
        ([CouldNotReadPending (Message e)], sent @ [Lib ''PENDING_DTC'']))
   \<and> (conn sent cmd = Raised e \<longrightarrow>
      read_live_loop conn sent ((cmd, description) # cmds) =
        (Error description e # fst (read_live_loop conn (sent @ [cmd]) cmds),
         snd (read_live_loop conn (sent @ [cmd]) cmds)))
   \<and> (lower response = ''y'' \<and> conn sent (Lib ''CLEAR_DTC'') = Raised e \<longrightarrow>
      clear_dtcs response conn sent = ([ErrorClearingDtcs e], sent @ [Lib ''CLEAR_DTC'']))
   \<and> (conn sent cmd = Raised e \<longrightarrow>
      read_info_loop conn sent ((cmd, description) # cmds) =
        (Error description e # fst (read_info_loop conn (sent @ [cmd]) cmds),
         snd (read_info_loop conn (sent @ [cmd]) cmds)))
   \<and> (lib ''VIN'' \<and> conn sent (Lib ''VIN'') = Raised e \<longrightarrow>
      test_vin_command lib conn sent =
        (None, [VinCommandExists, VinError e], sent @ [Lib ''VIN'']))
   \<and> (conn sent (vin_test_cmd (name, description)) = Raised e \<longrightarrow>
      test_raw_vin_loop conn sent ((name, description) # cands) =
        (RawError name e
           # fst (test_raw_vin_loop conn (sent @ [vin_test_cmd (name, description)]) cands),
         snd (test_raw_vin_loop conn (sent @ [vin_test_cmd (name, description)]) cands)))
   \<and> (conn sent protocol_cmd = Raised e \<longrightarrow>
      test_elm327_info conn sent =
        (CouldNotDetermineProtocol # fst (read_live_loop conn (sent @ [protocol_cmd]) info_commands),
         snd (read_live_loop conn (sent @ [protocol_cmd]) info_commands)))
   \<and> (conn sent (Lib ''PIDS_A'') = Raised e \<longrightarrow>
      test_supported_pids conn sent = ([ErrorTestingPids (Message e)], sent @ [Lib ''PIDS_A'']))
   \<and> (conn sent (Lib ''PIDS_A'') = Response v1
        \<and> conn (sent @ [Lib ''PIDS_A'']) mode09_cmd = Raised e \<longrightarrow>
      test_supported_pids conn sent =
        (mode01_report v1 @ [ErrorTestingPids (Message e)], sent @ [Lib ''PIDS_A'', mode09_cmd]))"
  by (intro conjI impI)
     (simp_all add: analyze_p0420_without_o2_def query_def split_beta wideband_report_def
        monitor_report_def o2_report_def fuel_trim_report_def read_dtcs_def read_pending_def
        pending_report_def live_report_def clear_dtcs_def info_report_def test_vin_command_def
        raw_vin_report_def test_elm327_info_def protocol_report_def test_supported_pids_def)

theorem failures_are_printed_witness:
  "test_elm327_info (replies [(protocol_cmd, Raised ''timeout'')]) [] =
     ([CouldNotDetermineProtocol, NotAvailable ''ELM327 Version'', NotAvailable ''Battery Voltage''],
      [protocol_cmd, Lib ''ELM_VERSION'', Lib ''ELM_VOLTAGE''])
   \<and> monitor_round full_library (replies [(Lib ''O2_B1S1'', Raised ''timeout'')]) []
         [(''O2_B1S1'', ''Bank 1 Sensor 1 (Standard)'', Str ''x'')] =
       ([BareError ''Bank 1 Sensor 1 (Standard)''], [Lib ''O2_B1S1''])
   \<and> clear_dtcs ''y'' (replies [(Lib ''CLEAR_DTC'', Raised ''timeout'')]) [] =
       ([ErrorClearingDtcs ''timeout''], [Lib ''CLEAR_DTC''])
   \<and> read_dtcs full_library (replies [(Lib ''GET_DTC'', Raised ''timeout'')]) [] =
       ([ErrorReadingDtcs (Message ''timeout'')], [Lib ''GET_DTC''])"
  using failures_are_printed
          [where conn = "replies [(protocol_cmd, Raised ''timeout'')]" and sent = "[]"
             and e = "''timeout''"]
        failures_are_printed
          [where conn = "replies [(Lib ''O2_B1S1'', Raised ''timeout'')]" and sent = "[]"
             and e = "''timeout''" and lib = full_library
             and s = "(''O2_B1S1'', ''Bank 1 Sensor 1 (Standard)'', Str ''x'')" and sensors = "[]"]
        failures_are_printed
          [where conn = "replies [(Lib ''CLEAR_DTC'', Raised ''timeout'')]" and sent = "[]"
             and e = "''timeout''" and response = "''y''"]
        failures_are_printed
          [where conn = "replies [(Lib ''GET_DTC'', Raised ''timeout'')]" and sent = "[]"
             and e = "''timeout''" and lib = full_library]
  by (simp add: replies_def full_library_def protocol_cmd_def info_commands_def
        live_report_def query_def monitor_cmd_def lower_y)

section \<open>Searching the command table\<close>

text \<open>
  C6. For every search term the search prints exactly the commands (public attributes
  with a name and a description) whose attribute name or description contains the term
  once both are put in capitals, whatever Python's case mapping does to them; they come
  in ascending order of attribute name, each once; and when nothing matches the search
  ends normally with no match listed, only the "No commands found" notice. On ASCII
  text, where the case mapping changes the 26 letters only, these are exactly the
  commands whose name or description contains a stretch equal to the term letter by
  letter, letter case aside.
\<close>

theorem search_lists_matches_sorted:
  "(\<exists>hits. search_commands up us t ns =
            (if hits = [] then [NoCommandsFound t] else map (\<lambda>(a, d). Match a d) hits)
      \<and> sorted (map fst hits) \<and> distinct (map fst hits)
      \<and> set hits = {(a, d) \<in> commands_of us ns.
                      contains (up a) (up t) \<or> contains (up d) (up t)})
   \<and> ((\<forall>s. ascii s \<longrightarrow> up' s = upper s) \<and> ascii t' \<and> ascii_table ns' \<longrightarrow>
        (\<exists>hits. search_commands up' CHR ''_'' t' ns' =
            (if hits = [] then [NoCommandsFound t'] else map (\<lambda>(a, d). Match a d) hits)
          \<and> sorted (map fst hits) \<and> distinct (map fst hits)
          \<and> set hits = {(a, d) \<in> commands_of CHR ''_'' ns'.
                          contains_ignoring_case a t' \<or> contains_ignoring_case d t'}))"
proof (intro conjI impI)
  show "\<exists>hits. search_commands up us t ns =
            (if hits = [] then [NoCommandsFound t] else map (\<lambda>(a, d). Match a d) hits)
      \<and> sorted (map fst hits) \<and> distinct (map fst hits)
      \<and> set hits = {(a, d) \<in> commands_of us ns.
                      contains (up a) (up t) \<or> contains (up d) (up t)}"
    using search_general [of up us t ns] by (simp add: term_matches_def)
next
  assume a: "(\<forall>s. ascii s \<longrightarrow> up' s = upper s) \<and> ascii t' \<and> ascii_table ns'"
  have "term_matches up' t' x d \<longleftrightarrow> contains_ignoring_case x t' \<or> contains_ignoring_case d t'"
    if "(x, d) \<in> commands_of CHR ''_'' ns'" for x d
  proof -
    from a that have "ascii x \<and> ascii d"
      using ascii_commands by blast
    with a have "up' x = upper x" "up' d = upper d" "up' t' = upper t'"
      by auto
    then show ?thesis
      by (simp add: term_matches_def contains_upper)
  qed
  then have "{(a, d) \<in> commands_of CHR ''_'' ns'. term_matches up' t' a d} =
             {(a, d) \<in> commands_of CHR ''_'' ns'.
                contains_ignoring_case a t' \<or> contains_ignoring_case d t'}"
    by auto
  with search_general [of up' "CHR ''_''" t' ns']
  show "\<exists>hits. search_commands up' CHR ''_'' t' ns' =
            (if hits = [] then [NoCommandsFound t'] else map (\<lambda>(a, d). Match a d) hits)
          \<and> sorted (map fst hits) \<and> distinct (map fst hits)
          \<and> set hits = {(a, d) \<in> commands_of CHR ''_'' ns'.
                          contains_ignoring_case a t' \<or> contains_ignoring_case d t'}"
    by simp
qed

theorem search_lists_matches_sorted_witness:
  "ascii ''fuel'' \<and> ascii_table example_commands
   \<and> search_commands upper CHR ''_'' ''fuel'' example_commands =
       [Match ''FUEL_LEVEL'' ''Fuel Level Input'',
        Match ''SHORT_FUEL_TRIM_1'' ''Short Term Fuel Trim - Bank 1'']
   \<and> search_commands upper CHR ''_'' ''turbo'' example_commands = [NoCommandsFound ''turbo'']"
proof -
  have 1: "ascii ''fuel'' \<and> ascii_table example_commands"
    by (simp add: ascii_def ascii_table_def example_commands_def)
  have 2: "search_commands upper CHR ''_'' ''fuel'' example_commands =
     [Match ''FUEL_LEVEL'' ''Fuel Level Input'',
      Match ''SHORT_FUEL_TRIM_1'' ''Short Term Fuel Trim - Bank 1'']"
    by code_simp
  have 3: "search_commands upper CHR ''_'' ''turbo'' example_commands = [NoCommandsFound ''turbo'']"
    by code_simp
  show ?thesis
    using 1 2 3
      search_lists_matches_sorted
        [of upper "CHR ''_''" "''fuel''" example_commands upper "''fuel''" example_commands]
    by simp
qed

section \<open>Decoding a percent byte\<close>

text \<open>
  C5. For every byte \<open>b\<close>, decoding the one-byte payload \<open>[b]\<close> succeeds with the value
  \<open>b * 100 / 255\<close>, which lies between 0 and 100. The decoder is a function of its
  payload alone, so decoding the same payload again gives the same value.
\<close>

theorem decodePercent_single_byte:
  "decodePercent [b] = Inr (real (unat b) * 100 / 255)
   \<and> 0 \<le> real (unat b) * 100 / 255 \<and> real (unat b) * 100 / 255 \<le> 100"
proof -
  have "unat b < 2 ^ 8"
    using unsigned_less [of b, where ?'a = nat] by simp
  then have "unat b \<le> 255"
    by simp
  then have "real (unat b) \<le> real 255"
    by (rule of_nat_mono)
  moreover have "0 \<le> real (unat b)"
    by (rule of_nat_0_le_iff)
  ultimately have "real (unat b) * 100 / 255 \<le> 100" and "0 \<le> real (unat b) * 100 / 255"
    by simp_all
  then show ?thesis
    by (simp add: decodePercent_def)
qed

theorem decodePercent_single_byte_witness:
  "decodePercent [255] = Inr 100 \<and> decodePercent [0] = Inr 0"
  using decodePercent_single_byte [of 255] decodePercent_single_byte [of 0]
  by simp

end
